theory Spec2Isabelle
  imports Main "HOL-Library.Product_Lexorder" "HOL-Library.AList"
begin

section \<open>Python values the two modules work on\<close>

subsection \<open>Exceptions\<close>

text \<open>
  The arguments \<^verbatim>\<open>SolcError\<close> and \<^verbatim>\<open>ContractsNotFound\<close> are constructed with
  (\<^verbatim>\<open>command, return_code, stdin_data, stdout_data, stderr_data, message\<close>); each may be
  \<^verbatim>\<open>None\<close>.
\<close>

record error_info =
  err_command :: "string list option"
  err_return_code :: "int option"
  stdin_data :: "string option"
  stdout_data :: "string option"
  stderr_data :: "string option"
  message :: "string option"

text \<open>
  Every exception the modelled code raises is a value. \<open>Unmodelled\<close> is not a Python
  exception: it marks an input on which the model does not say what the library does
  (a version string with a pre-release or build suffix, a range syntax beyond the
  operators of the pragma grammar).
\<close>

datatype exn =
    ValueError string
  | TypeError string
  | KeyError string
  | AttributeError string
  | JSONDecodeError
  | SolcError error_info
  | ContractsNotFound error_info
  | SolcNotInstalled string
  | DownloadError string
  | CalledProcessError "string list" int
  | OSError string
  | ConnectionError string
  | Unmodelled string

subsection \<open>Strings\<close>

text \<open>\<^verbatim>\<open>s.startswith(p)\<close>\<close>

definition startswith :: "string \<Rightarrow> string \<Rightarrow> bool" where
  "startswith s p = (take (length p) s = p)"

text \<open>\<^verbatim>\<open>s.find(sub)\<close>: the index of the first occurrence, \<open>None\<close> for Python's -1.\<close>

fun str_find :: "string \<Rightarrow> string \<Rightarrow> nat option" where
  "str_find [] sub = (if sub = [] then Some 0 else None)"
| "str_find (c # cs) sub =
     (if startswith (c # cs) sub then Some 0 else map_option Suc (str_find cs sub))"




text \<open>\<^verbatim>\<open>s.lstrip(chars)\<close>\<close>

definition lstrip :: "string \<Rightarrow> string \<Rightarrow> string" where
  "lstrip s chars = dropWhile (\<lambda>c. c \<in> set chars) s"

text \<open>\<^verbatim>\<open>s.replace(c, "")\<close> for a one-character \<open>c\<close>.\<close>

definition remove_char :: "char \<Rightarrow> string \<Rightarrow> string" where
  "remove_char c s = filter (\<lambda>x. x \<noteq> c) s"

text \<open>\<^verbatim>\<open>s.split(c)\<close> for a one-character separator; the result is never empty.\<close>

fun split_char :: "char \<Rightarrow> string \<Rightarrow> string list" where
  "split_char c [] = [[]]"
| "split_char c (x # xs) =
     (if x = c then [] # split_char c xs
      else (case split_char c xs of p # ps \<Rightarrow> (x # p) # ps | [] \<Rightarrow> [[x]]))"

text \<open>\<^verbatim>\<open>s.split("||")\<close>: occurrences are taken left to right and do not overlap.\<close>

fun split_or :: "string \<Rightarrow> string list" where
  "split_or [] = [[]]"
| "split_or [c] = [[c]]"
| "split_or (a # b # cs) =
     (if a = CHR ''|'' \<and> b = CHR ''|'' then [] # split_or cs
      else (case split_or (b # cs) of p # ps \<Rightarrow> (a # p) # ps | [] \<Rightarrow> [[a]]))"

text \<open>\<^verbatim>\<open>sep.join(xs)\<close>\<close>

fun join :: "string \<Rightarrow> string list \<Rightarrow> string" where
  "join sep [] = []"
| "join sep [x] = x"
| "join sep (x # y # ys) = x @ sep @ join sep (y # ys)"

definition is_digit :: "char \<Rightarrow> bool" where
  "is_digit c = (c \<in> set ''0123456789'')"

text \<open>\<^verbatim>\<open>int(s)\<close> on a string of decimal digits.\<close>

definition int_of_digits :: "string \<Rightarrow> nat" where
  "int_of_digits s = foldl (\<lambda>n c. 10 * n + (of_char c - 48)) 0 s"

text \<open>\<^verbatim>\<open>str(n)\<close> for a natural number.\<close>

fun show_nat :: "nat \<Rightarrow> string" where
  "show_nat n =
     (if n < 10 then [''0123456789'' ! n]
      else show_nat (n div 10) @ [''0123456789'' ! (n mod 10)])"

declare show_nat.simps [simp del]

section \<open>The semantic_version library, for release versions\<close>

text \<open>
  solc release tags are \<^verbatim>\<open>vX.Y.Z\<close>. The model's \<open>version\<close> is a release version: its
  three numbers. The library orders versions by their precedence key, for a release
  version the triple of its numbers.
\<close>

datatype version = Version (major: nat) (minor: nat) (patch: nat)

definition precedence_key :: "version \<Rightarrow> nat \<times> nat \<times> nat" where
  "precedence_key v = (major v, minor v, patch v)"

definition version_lt :: "version \<Rightarrow> version \<Rightarrow> bool" where
  "version_lt a b = (precedence_key a < precedence_key b)"

definition version_le :: "version \<Rightarrow> version \<Rightarrow> bool" where
  "version_le a b = (precedence_key a \<le> precedence_key b)"

text \<open>\<^verbatim>\<open>str(version)\<close>\<close>

definition str_version :: "version \<Rightarrow> string" where
  "str_version v = show_nat (major v) @ ''.'' @ show_nat (minor v) @ ''.'' @ show_nat (patch v)"

text \<open>A numeric component: digits, and no leading zero (the library rejects one).\<close>

definition numeric :: "string \<Rightarrow> bool" where
  "numeric s = (s \<noteq> [] \<and> list_all is_digit s)"

definition leading_zero :: "string \<Rightarrow> bool" where
  "leading_zero s = (1 < length s \<and> hd s = CHR ''0'')"

text \<open>
  \<^verbatim>\<open>Version(s)\<close>. A string of digits and dots is a version when it has exactly three
  numeric components without leading zeros, and raises \<^verbatim>\<open>ValueError\<close> otherwise. On
  a string with any other character the model is silent.
\<close>

definition parse_version :: "string \<Rightarrow> exn + version" where
  "parse_version s =
     (if \<not> list_all (\<lambda>c. is_digit c \<or> c = CHR ''.'') s
      then Inl (Unmodelled ''version string with characters other than digits and dots'')
      else (case split_char (CHR ''.'') s of
              [a, b, c] \<Rightarrow>
                if numeric a \<and> numeric b \<and> numeric c
                   \<and> \<not> leading_zero a \<and> \<not> leading_zero b \<and> \<not> leading_zero c
                then Inr (Version (int_of_digits a) (int_of_digits b) (int_of_digits c))
                else Inl (ValueError ''Invalid version string'')
            | _ \<Rightarrow> Inl (ValueError ''Invalid version string'')))"

text \<open>
  A \<^verbatim>\<open>SimpleSpec\<close> is a conjunction of ranges, each an operator and a target version.
\<close>

datatype range_op = OP_EQ | OP_GT | OP_GTE | OP_LT | OP_LTE

type_synonym clause = "(range_op \<times> version) list"

fun range_match :: "range_op \<times> version \<Rightarrow> version \<Rightarrow> bool" where
  "range_match (OP_EQ, t) v = (v = t)"
| "range_match (OP_GT, t) v = version_lt t v"
| "range_match (OP_GTE, t) v = version_le t v"
| "range_match (OP_LT, t) v = version_lt v t"
| "range_match (OP_LTE, t) v = version_le v t"

text \<open>\<^verbatim>\<open>spec.match(version)\<close>, also \<^verbatim>\<open>version in spec\<close>.\<close>

definition spec_match :: "clause \<Rightarrow> version \<Rightarrow> bool" where
  "spec_match cl v = list_all (\<lambda>r. range_match r v) cl"

text \<open>
  The caret of a full target: \<^verbatim>\<open>^1.2.3\<close> is \<^verbatim>\<open>>=1.2.3,<2.0.0\<close>, \<^verbatim>\<open>^0.2.3\<close> is
  \<^verbatim>\<open>>=0.2.3,<0.3.0\<close>, \<^verbatim>\<open>^0.0.3\<close> is \<^verbatim>\<open>>=0.0.3,<0.0.4\<close>.
\<close>

definition caret_high :: "version \<Rightarrow> version" where
  "caret_high t =
     (if major t \<noteq> 0 then Version (major t + 1) 0 0
      else if minor t \<noteq> 0 then Version 0 (minor t + 1) 0
      else Version 0 0 (patch t + 1))"

text \<open>The operator a block starts with, and the rest of the block.\<close>

definition spec_prefix :: "string \<Rightarrow> string \<times> string" where
  "spec_prefix s =
     (if startswith s ''<='' then (''<='', drop 2 s)
      else if startswith s ''>='' then (''>='', drop 2 s)
      else if startswith s ''=='' then (''=='', drop 2 s)
      else if startswith s ''<'' then (''<'', drop 1 s)
      else if startswith s ''>'' then (''>'', drop 1 s)
      else if startswith s ''='' then (''=='', drop 1 s)
      else if startswith s ''^'' then (''^'', drop 1 s)
      else (''=='', s))"

text \<open>
  \<^verbatim>\<open>SimpleSpec(expression)\<close> for one block: an operator of the pragma grammar (none
  means equality) and a full target \<^verbatim>\<open>X.Y.Z\<close>. The library rejects a number with a
  leading zero (\<^verbatim>\<open>ValueError\<close>). On any other expression (partial targets, wildcards,
  tildes, several blocks joined by commas) the model is silent.
\<close>

definition simple_spec :: "string \<Rightarrow> exn + clause" where
  "simple_spec expression =
     (let (prefix, target) = spec_prefix expression in
      if \<not> list_all (\<lambda>c. is_digit c \<or> c = CHR ''.'') target
         \<or> length (split_char (CHR ''.'') target) \<noteq> 3
         \<or> \<not> list_all numeric (split_char (CHR ''.'') target)
      then Inl (Unmodelled ''range expression beyond the pragma grammar'')
      else (case parse_version target of
              Inl e \<Rightarrow> Inl (ValueError ''Invalid simple block'')
            | Inr t \<Rightarrow>
                if prefix = ''^'' then Inr [(OP_GTE, t), (OP_LT, caret_high t)]
                else if prefix = ''=='' then Inr [(OP_EQ, t)]
                else if prefix = ''>'' then Inr [(OP_GT, t)]
                else if prefix = ''>='' then Inr [(OP_GTE, t)]
                else if prefix = ''<'' then Inr [(OP_LT, t)]
                else Inr [(OP_LTE, t)]))"

text \<open>\<^verbatim>\<open>max(options)\<close> of a list that is not empty: the first of the greatest.\<close>

fun max_version :: "version \<Rightarrow> version list \<Rightarrow> version" where
  "max_version m [] = m"
| "max_version m (v # vs) = max_version (if version_lt m v then v else m) vs"

text \<open>\<^verbatim>\<open>spec.select(versions)\<close>: the greatest version that matches, or \<^verbatim>\<open>None\<close>.\<close>

definition select :: "clause \<Rightarrow> version list \<Rightarrow> version option" where
  "select cl versions =
     (case filter (spec_match cl) versions of
        [] \<Rightarrow> None
      | v # vs \<Rightarrow> Some (max_version v vs))"

section \<open>install.py: selecting a version for a pragma\<close>

text \<open>
  The parts of \<^verbatim>\<open>comparator_regex = (([<>]?=?|\^)\d+\.\d+\.\d+)+\<close>, matched at the start
  of a string; each returns what it consumed and the rest. Matching is greedy and no
  shorter choice can make a later part succeed, so no backtracking is needed.
\<close>

definition match_operator :: "string \<Rightarrow> string \<times> string" where
  "match_operator s =
     (case s of
        [] \<Rightarrow> ([], s)
      | c # r \<Rightarrow>
          if c = CHR ''<'' \<or> c = CHR ''>'' then
            (case r of
               [] \<Rightarrow> ([c], r)
             | d # r' \<Rightarrow> if d = CHR ''='' then ([c, d], r') else ([c], r))
          else if c = CHR ''='' \<or> c = CHR ''^'' then ([c], r)
          else ([], s))"

definition match_digits :: "string \<Rightarrow> (string \<times> string) option" where
  "match_digits s =
     (if takeWhile is_digit s = [] then None
      else Some (takeWhile is_digit s, dropWhile is_digit s))"

definition match_dot :: "string \<Rightarrow> string option" where
  "match_dot s = (case s of [] \<Rightarrow> None | c # r \<Rightarrow> if c = CHR ''.'' then Some r else None)"

text \<open>One pass of the repeated group: the text of group 1 and the rest.\<close>

definition match_comparator :: "string \<Rightarrow> (string \<times> string) option" where
  "match_comparator s =
     (case match_operator s of (opr, s1) \<Rightarrow>
      case match_digits s1 of None \<Rightarrow> None | Some (a, s2) \<Rightarrow>
      case match_dot s2 of None \<Rightarrow> None | Some s3 \<Rightarrow>
      case match_digits s3 of None \<Rightarrow> None | Some (b, s4) \<Rightarrow>
      case match_dot s4 of None \<Rightarrow> None | Some s5 \<Rightarrow>
      case match_digits s5 of None \<Rightarrow> None | Some (c, s6) \<Rightarrow>
        Some (opr @ a @ ''.'' @ b @ ''.'' @ c, s6))"

lemma match_operator_length: "match_operator s = (opr, r) \<Longrightarrow> length r \<le> length s"
  by (auto simp: match_operator_def split: list.splits if_splits)

lemma match_digits_length: "match_digits s = Some (a, r) \<Longrightarrow> length r \<le> length s"
  by (auto simp: match_digits_def length_dropWhile_le split: if_splits)

lemma match_dot_length: "match_dot s = Some r \<Longrightarrow> length r < length s"
  by (auto simp: match_dot_def split: list.splits if_splits)

lemma match_comparator_length:
  assumes "match_comparator s = Some (g, r)"
  shows "length r < length s"
proof -
  obtain opr s1 a s2 s3 b s4 s5 c where
    1: "match_operator s = (opr, s1)" and 2: "match_digits s1 = Some (a, s2)" and
    3: "match_dot s2 = Some s3" and 4: "match_digits s3 = Some (b, s4)" and
    5: "match_dot s4 = Some s5" and 6: "match_digits s5 = Some (c, r)"
    using assms by (auto simp: match_comparator_def split: prod.splits option.splits)
  from match_operator_length[OF 1] match_digits_length[OF 2] match_dot_length[OF 3]
    match_digits_length[OF 4] match_dot_length[OF 5] match_digits_length[OF 6]
  show ?thesis by linarith
qed

text \<open>
  The further passes of \<open>(...)+\<close>: a group that repeats keeps the text of its last pass.
  \<open>g\<close> is the text of the pass before.
\<close>

function match_repeat :: "string \<Rightarrow> string \<Rightarrow> string \<times> string" where
  "match_repeat g s =
     (case match_comparator s of
        None \<Rightarrow> (g, s)
      | Some (g', s') \<Rightarrow> match_repeat g' s')"
  by pat_completeness auto
termination
  by (relation "measure (\<lambda>(g, s). length s)") (auto dest: match_comparator_length)

declare match_repeat.simps [simp del]

lemma match_repeat_length: "match_repeat g s = (g', s') \<Longrightarrow> length s' \<le> length s"
proof (induction g s rule: match_repeat.induct)
  case (1 g s)
  show ?case
  proof (cases "match_comparator s")
    case None
    with "1.prems" show ?thesis by (simp add: match_repeat.simps)
  next
    case (Some p)
    obtain g1 s1 where p: "p = (g1, s1)" by (cases p)
    from "1.prems" Some p have "match_repeat g1 s1 = (g', s')"
      by (simp add: match_repeat.simps)
    from "1.IH"[OF Some p[symmetric] this] match_comparator_length[of s g1 s1] Some p
    show ?thesis by simp
  qed
qed

text \<open>
  \<^verbatim>\<open>[i[0] for i in comparator_regex.findall(s)]\<close>: the matches from left to right, none
  overlapping, each given by the text of group 1, which is the last comparator of the
  run the match covers.
\<close>

function findall_comparators :: "string \<Rightarrow> string list" where
  "findall_comparators [] = []"
| "findall_comparators (c # cs) =
     (case match_comparator (c # cs) of
        None \<Rightarrow> findall_comparators cs
      | Some (g, s') \<Rightarrow>
          (case match_repeat g s' of (g', s'') \<Rightarrow> g' # findall_comparators s''))"
  by pat_completeness auto
termination
proof (relation "measure length", goal_cases)
  case 1
  show ?case by simp
next
  case (2 c cs)
  show ?case by simp
next
  case (3 c cs x2 g s' g' s'')
  from match_comparator_length[of "c # cs" g s'] match_repeat_length[of g s' g' s''] 3
  show ?case by simp
qed

text \<open>
  \<^verbatim>\<open>SimpleSpec(*expressions)\<close>: the constructor takes exactly one expression, so a call
  with none or with several raises \<^verbatim>\<open>TypeError\<close>.
\<close>

definition SimpleSpec :: "string list \<Rightarrow> exn + clause" where
  "SimpleSpec expressions =
     (case expressions of
        [expression] \<Rightarrow> simple_spec expression
      | _ \<Rightarrow> Inl (TypeError ''SimpleSpec() takes one expression''))"

text \<open>
  The loop of \<^verbatim>\<open>_select_pragma_version\<close> over the comparator sets; \<open>version\<close> is the
  variable of that name. A \<^verbatim>\<open>Version\<close> object is always true, so \<^verbatim>\<open>if selected\<close> asks
  only whether one was selected.
\<close>

fun select_pragma_loop :: "string list \<Rightarrow> version list \<Rightarrow> version option \<Rightarrow> exn + version option" where
  "select_pragma_loop [] version_list version = Inr version"
| "select_pragma_loop (comparator_set # rest) version_list version =
     (case SimpleSpec (findall_comparators comparator_set) of
        Inl e \<Rightarrow> Inl e
      | Inr spec \<Rightarrow>
          (case select spec version_list of
             None \<Rightarrow> select_pragma_loop rest version_list version
           | Some selected \<Rightarrow>
               (case version of
                  None \<Rightarrow> select_pragma_loop rest version_list (Some selected)
                | Some v \<Rightarrow>
                    if version_lt v selected
                    then select_pragma_loop rest version_list (Some selected)
                    else select_pragma_loop rest version_list version)))"

text \<open>\<^verbatim>\<open>_select_pragma_version(pragma_string, version_list)\<close>\<close>

definition select_pragma_version :: "string \<Rightarrow> version list \<Rightarrow> exn + string option" where
  "select_pragma_version pragma_string version_list =
     (let comparator_set_range = split_or (remove_char (CHR '' '') pragma_string) in
      case select_pragma_loop comparator_set_range version_list None of
        Inl e \<Rightarrow> Inl e
      | Inr None \<Rightarrow> Inr None
      | Inr (Some version) \<Rightarrow> Inr (Some (str_version version)))"

section \<open>main.py\<close>

subsection \<open>What main.py receives from outside\<close>

text \<open>
  Keyword arguments are passed on to \<^verbatim>\<open>solc_wrapper\<close>; the model keeps their names and
  the values main.py itself builds.
\<close>

datatype pyarg = ArgStr string | ArgBool bool | ArgList "string list"

type_synonym kwargs = "(string \<times> pyarg) list"

text \<open>
  \<^verbatim>\<open>solc_wrapper\<close> (wrapper.py) runs the compiler and returns
  \<^verbatim>\<open>(stdoutdata, stderrdata, command, proc)\<close>. wrapper.py is not among the source files:
  every function of main.py below takes the wrapper as its parameter \<open>solc_wrapper\<close>,
  a function from the keyword arguments to this result or to the exception it raises.
\<close>

record wrapper_result =
  stdoutdata :: string
  stderrdata :: string
  command :: "string list"
  returncode :: int

text \<open>
  What \<^verbatim>\<open>json.loads\<close> returns: dictionaries keep the order of their keys. (Floats are
  left out.)
\<close>

datatype json =
    JNull
  | JBool bool
  | JInt int
  | JStr string
  | JArr "json list"
  | JObj "(string \<times> json) list"

text \<open>
  The standard library's \<^verbatim>\<open>json\<close> module is a parameter as well: \<open>loads\<close> gives
  \<open>None\<close> where \<^verbatim>\<open>json.loads\<close> raises \<^verbatim>\<open>JSONDecodeError\<close>; \<open>dumps\<close> is
  \<^verbatim>\<open>json.dumps(x)\<close> and \<open>dumps_sorted\<close> is \<^verbatim>\<open>json.dumps(x, sort_keys=True, indent=2)\<close>.
\<close>

record json_module =
  loads :: "string \<Rightarrow> json option"
  dumps :: "json \<Rightarrow> string"
  dumps_sorted :: "json \<Rightarrow> string"

text \<open>Truth value of a Python object.\<close>

fun truthy :: "json \<Rightarrow> bool" where
  "truthy JNull = False"
| "truthy (JBool b) = b"
| "truthy (JInt n) = (n \<noteq> 0)"
| "truthy (JStr s) = (s \<noteq> [])"
| "truthy (JArr xs) = (xs \<noteq> [])"
| "truthy (JObj kvs) = (kvs \<noteq> [])"

text \<open>\<^verbatim>\<open>key in x\<close> for a string \<open>key\<close>.\<close>

fun py_in :: "string \<Rightarrow> json \<Rightarrow> exn + bool" where
  "py_in key (JObj kvs) = Inr (map_of kvs key \<noteq> None)"
| "py_in key (JArr xs) = Inr (JStr key \<in> set xs)"
| "py_in key (JStr s) = Inr (str_find s key \<noteq> None)"
| "py_in key x = Inl (TypeError ''argument is not iterable'')"

text \<open>\<^verbatim>\<open>x[key]\<close> for a string \<open>key\<close>.\<close>

fun py_getitem :: "json \<Rightarrow> string \<Rightarrow> exn + json" where
  "py_getitem (JObj kvs) key =
     (case map_of kvs key of None \<Rightarrow> Inl (KeyError key) | Some v \<Rightarrow> Inr v)"
| "py_getitem (JArr xs) key = Inl (TypeError ''list indices must be integers or slices, not str'')"
| "py_getitem (JStr s) key = Inl (TypeError ''string indices must be integers'')"
| "py_getitem x key = Inl (TypeError ''object is not subscriptable'')"

text \<open>\<^verbatim>\<open>x[key] = v\<close> for a string \<open>key\<close>: a key already present keeps its place.\<close>

fun py_setitem :: "json \<Rightarrow> string \<Rightarrow> json \<Rightarrow> exn + json" where
  "py_setitem (JObj kvs) key v = Inr (JObj (AList.update key v kvs))"
| "py_setitem (JArr xs) key v = Inl (TypeError ''list indices must be integers or slices, not str'')"
| "py_setitem x key v = Inl (TypeError ''object does not support item assignment'')"

text \<open>\<^verbatim>\<open>x.get(key)\<close>: only a dictionary has the method.\<close>

fun py_get :: "json \<Rightarrow> string \<Rightarrow> exn + json option" where
  "py_get (JObj kvs) key = Inr (map_of kvs key)"
| "py_get x key = Inl (AttributeError ''get'')"

text \<open>\<^verbatim>\<open>x.get(key, {})\<close>\<close>

definition py_get_or_empty :: "json \<Rightarrow> string \<Rightarrow> exn + json" where
  "py_get_or_empty x key =
     (case py_get x key of
        Inl e \<Rightarrow> Inl e
      | Inr None \<Rightarrow> Inr (JObj [])
      | Inr (Some v) \<Rightarrow> Inr v)"

text \<open>\<^verbatim>\<open>for item in x\<close>: a dictionary gives its keys, a string its characters.\<close>

fun py_iter :: "json \<Rightarrow> exn + json list" where
  "py_iter (JArr xs) = Inr xs"
| "py_iter (JObj kvs) = Inr (map (\<lambda>kv. JStr (fst kv)) kvs)"
| "py_iter (JStr s) = Inr (map (\<lambda>c. JStr [c]) s)"
| "py_iter x = Inl (TypeError ''object is not iterable'')"

text \<open>\<^verbatim>\<open>sep.join(items)\<close>: every item must be a string.\<close>

fun str_items :: "json list \<Rightarrow> string list option" where
  "str_items [] = Some []"
| "str_items (JStr s # rest) = map_option ((#) s) (str_items rest)"
| "str_items (x # rest) = None"

definition py_join :: "string \<Rightarrow> json list \<Rightarrow> exn + string" where
  "py_join sep items =
     (case str_items items of
        None \<Rightarrow> Inl (TypeError ''sequence item: expected str instance'')
      | Some xs \<Rightarrow> Inr (join sep xs))"

text \<open>\<^verbatim>\<open>path_str.rsplit(":", maxsplit=1)[0]\<close>: the part before the last colon.\<close>

definition rsplit_colon_head :: "string \<Rightarrow> string" where
  "rsplit_colon_head s =
     (if CHR '':'' \<in> set s then rev (tl (dropWhile (\<lambda>c. c \<noteq> CHR '':'') (rev s))) else s)"

subsection \<open>get_solc_version_string\<close>


subsection \<open>_parse_compiler_output\<close>

text \<open>The body of the loop over \<^verbatim>\<open>contracts.items()\<close>: what \<open>data\<close> is afterwards.\<close>

definition parse_contract :: "json_module \<Rightarrow> json \<Rightarrow> string \<Rightarrow> json \<Rightarrow> exn + json" where
  "parse_contract js sources path_str data =
     (case (case py_in ''abi'' data of
              Inl e \<Rightarrow> Inl e
            | Inr False \<Rightarrow> Inr data
            | Inr True \<Rightarrow>
                (case py_getitem data ''abi'' of
                   Inl e \<Rightarrow> Inl e
                 | Inr (JStr text) \<Rightarrow>
                     (case loads js text of
                        None \<Rightarrow> Inl JSONDecodeError
                      | Some abi \<Rightarrow> py_setitem data ''abi'' abi)
                 | Inr other \<Rightarrow>
                     Inl (TypeError ''the JSON object must be str, bytes or bytearray''))) of
        Inl e \<Rightarrow> Inl e
      | Inr data1 \<Rightarrow>
          (let key = rsplit_colon_head path_str in
           case py_get_or_empty sources key of
             Inl e \<Rightarrow> Inl e
           | Inr entry \<Rightarrow>
               (case py_in ''AST'' entry of
                  Inl e \<Rightarrow> Inl e
                | Inr False \<Rightarrow> Inr data1
                | Inr True \<Rightarrow>
                    (case py_getitem sources key of
                       Inl e \<Rightarrow> Inl e
                     | Inr entry' \<Rightarrow>
                         (case py_getitem entry' ''AST'' of
                            Inl e \<Rightarrow> Inl e
                          | Inr ast \<Rightarrow> py_setitem data1 ''ast'' ast)))))"

fun parse_contracts ::
  "json_module \<Rightarrow> json \<Rightarrow> (string \<times> json) list \<Rightarrow> exn + (string \<times> json) list" where
  "parse_contracts js sources [] = Inr []"
| "parse_contracts js sources ((path_str, data) # rest) =
     (case parse_contract js sources path_str data of
        Inl e \<Rightarrow> Inl e
      | Inr data' \<Rightarrow>
          (case parse_contracts js sources rest of
             Inl e \<Rightarrow> Inl e
           | Inr rest' \<Rightarrow> Inr ((path_str, data') # rest')))"

text \<open>
  \<^verbatim>\<open>_parse_compiler_output(stdoutdata)\<close>. The result is the \<open>contracts\<close> dictionary;
  \<^verbatim>\<open>contracts.items()\<close> needs it to be one.
\<close>

definition parse_compiler_output :: "json_module \<Rightarrow> string \<Rightarrow> exn + (string \<times> json) list" where
  "parse_compiler_output js stdoutdata' =
     (case loads js stdoutdata' of
        None \<Rightarrow> Inl JSONDecodeError
      | Some output \<Rightarrow>
          (case py_get_or_empty output ''contracts'' of
             Inl e \<Rightarrow> Inl e
           | Inr contracts \<Rightarrow>
               (case py_get_or_empty output ''sources'' of
                  Inl e \<Rightarrow> Inl e
                | Inr sources \<Rightarrow>
                    (case contracts of
                       JObj items \<Rightarrow> parse_contracts js sources items
                     | _ \<Rightarrow> Inl (AttributeError ''items'')))))"

subsection \<open>compile_source, compile_files, compile_standard\<close>

definition ALL_OUTPUT_VALUES :: "string list" where
  "ALL_OUTPUT_VALUES =
     [''abi'', ''asm'', ''ast'', ''bin'', ''bin-runtime'', ''clone-bin'', ''devdoc'', ''opcodes'',
      ''userdoc'']"

definition compile_source ::
  "json_module \<Rightarrow> (kwargs \<Rightarrow> exn + wrapper_result) \<Rightarrow> string \<Rightarrow> bool \<Rightarrow> string list \<Rightarrow> kwargs
     \<Rightarrow> exn + (string \<times> json) list" where
  "compile_source js solc_wrapper source allow_empty output_values kwargs =
     (if map_of kwargs ''stdin'' \<noteq> None
      then Inl (ValueError ''The `stdin` keyword is not allowed in the `compile_source` function'')
      else if map_of kwargs ''combined_json'' \<noteq> None
      then Inl (ValueError
             ''The `combined_json` keyword is not allowed in the `compile_source` function'')
      else
        (let combined_json = join '','' output_values;
             compiler_kwargs =
               (''stdin'', ArgStr source) # (''combined_json'', ArgStr combined_json) # kwargs
         in case solc_wrapper compiler_kwargs of
              Inl e \<Rightarrow> Inl e
            | Inr r \<Rightarrow>
                (case parse_compiler_output js (stdoutdata r) of
                   Inl e \<Rightarrow> Inl e
                 | Inr contracts \<Rightarrow>
                     if contracts = [] \<and> \<not> allow_empty
                     then Inl (ContractsNotFound
                            \<lparr>err_command = Some (command r),
                             err_return_code = Some (returncode r),
                             stdin_data = Some source, stdout_data = Some (stdoutdata r),
                             stderr_data = Some (stderrdata r), message = None\<rparr>)
                     else Inr contracts)))"

definition compile_files ::
  "json_module \<Rightarrow> (kwargs \<Rightarrow> exn + wrapper_result) \<Rightarrow> string list \<Rightarrow> bool \<Rightarrow> string list \<Rightarrow> kwargs
     \<Rightarrow> exn + (string \<times> json) list" where
  "compile_files js solc_wrapper source_files allow_empty output_values kwargs =
     (if map_of kwargs ''combined_json'' \<noteq> None
      then Inl (ValueError
             ''The `combined_json` keyword is not allowed in the `compile_files` function'')
      else
        (let combined_json = join '','' output_values;
             compiler_kwargs =
               (''source_files'', ArgList source_files) # (''combined_json'', ArgStr combined_json)
                 # kwargs
         in case solc_wrapper compiler_kwargs of
              Inl e \<Rightarrow> Inl e
            | Inr r \<Rightarrow>
                (case parse_compiler_output js (stdoutdata r) of
                   Inl e \<Rightarrow> Inl e
                 | Inr contracts \<Rightarrow>
                     if contracts = [] \<and> \<not> allow_empty
                     then Inl (ContractsNotFound
                            \<lparr>err_command = Some (command r),
                             err_return_code = Some (returncode r),
                             stdin_data = None, stdout_data = Some (stdoutdata r),
                             stderr_data = Some (stderrdata r), message = None\<rparr>)
                     else Inr contracts)))"

text \<open>
  \<^verbatim>\<open>any(error["severity"] == "error" for error in errors)\<close> stops at the first entry of
  severity error; an entry before it that has no severity raises.
\<close>

fun any_error :: "json list \<Rightarrow> exn + bool" where
  "any_error [] = Inr False"
| "any_error (error # rest) =
     (case py_getitem error ''severity'' of
        Inl e \<Rightarrow> Inl e
      | Inr severity \<Rightarrow> if severity = JStr ''error'' then Inr True else any_error rest)"

text \<open>
  \<^verbatim>\<open>tuple(error["formattedMessage"] for error in errors if error["severity"] == "error")\<close>
\<close>

fun formatted_messages :: "json list \<Rightarrow> exn + json list" where
  "formatted_messages [] = Inr []"
| "formatted_messages (error # rest) =
     (case py_getitem error ''severity'' of
        Inl e \<Rightarrow> Inl e
      | Inr severity \<Rightarrow>
          if severity = JStr ''error'' then
            (case py_getitem error ''formattedMessage'' of
               Inl e \<Rightarrow> Inl e
             | Inr m \<Rightarrow>
                 (case formatted_messages rest of
                    Inl e \<Rightarrow> Inl e
                  | Inr ms \<Rightarrow> Inr (m # ms)))
          else formatted_messages rest)"

definition compile_standard ::
  "json_module \<Rightarrow> (kwargs \<Rightarrow> exn + wrapper_result) \<Rightarrow> json \<Rightarrow> bool \<Rightarrow> kwargs \<Rightarrow> exn + json" where
  "compile_standard js solc_wrapper input_data allow_empty kwargs =
     (case py_get input_data ''sources'' of
        Inl e \<Rightarrow> Inl e
      | Inr sources \<Rightarrow>
          if \<not> (case sources of None \<Rightarrow> False | Some v \<Rightarrow> truthy v) \<and> \<not> allow_empty
          then Inl (ContractsNotFound
                 \<lparr>err_command = None, err_return_code = None,
                  stdin_data = Some (dumps_sorted js input_data), stdout_data = None,
                  stderr_data = None, message = None\<rparr>)
          else if map_of kwargs ''stdin'' \<noteq> None \<or> map_of kwargs ''standard_json'' \<noteq> None
          then Inl (TypeError ''got multiple values for keyword argument'')
          else
            (case solc_wrapper
                    ((''stdin'', ArgStr (dumps js input_data)) # (''standard_json'', ArgBool True)
                       # kwargs) of
               Inl e \<Rightarrow> Inl e
             | Inr r \<Rightarrow>
                 (case loads js (stdoutdata r) of
                    None \<Rightarrow> Inl JSONDecodeError
                  | Some compiler_output \<Rightarrow>
                      (case py_in ''errors'' compiler_output of
                         Inl e \<Rightarrow> Inl e
                       | Inr False \<Rightarrow> Inr compiler_output
                       | Inr True \<Rightarrow>
                           (case py_getitem compiler_output ''errors'' of
                              Inl e \<Rightarrow> Inl e
                            | Inr errors \<Rightarrow>
                                (case py_iter errors of
                                   Inl e \<Rightarrow> Inl e
                                 | Inr entries \<Rightarrow>
                                     (case any_error entries of
                                        Inl e \<Rightarrow> Inl e
                                      | Inr False \<Rightarrow> Inr compiler_output
                                      | Inr True \<Rightarrow>
                                          (case formatted_messages entries of
                                             Inl e \<Rightarrow> Inl e
                                           | Inr ms \<Rightarrow>
                                               (case py_join ''\<newline>'' ms of
                                                  Inl e \<Rightarrow> Inl e
                                                | Inr error_message \<Rightarrow>
                                                    Inl (SolcError
                                                      \<lparr>err_command = Some (command r),
                                                       err_return_code = Some (returncode r),
                                                       stdin_data = Some (dumps js input_data),
                                                       stdout_data = Some (stdoutdata r),
                                                       stderr_data = Some (stderrdata r),
                                                       message = Some error_message\<rparr>))))))))))"

section \<open>install.py\<close>

subsection \<open>The world outside the function calls\<close>

text \<open>What running a command gives: its exit status, its output, the paths it leaves.\<close>

record proc_result =
  exit_status :: int
  stdout :: string
  creates :: "string list"

text \<open>
  A \<^verbatim>\<open>requests\<close> response. \<open>content_length\<close> is
  \<^verbatim>\<open>int(response.headers.get("content-length", 0))\<close>, \<open>None\<close> where \<^verbatim>\<open>int\<close> raises;
  \<open>iter_content\<close> are the chunks \<^verbatim>\<open>iter_content(1024, decode_unicode=True)\<close> yields,
  bytes or, when the response has an encoding, text. A response has no attribute
  \<^verbatim>\<open>status_url\<close>.
\<close>

datatype chunk = Bytes string | Text string

record response =
  status_code :: int
  content :: string
  content_length :: "int option"
  iter_content :: "chunk list"

text \<open>
  The state the functions of install.py read and change: the platform, the environment,
  the paths that exist, the module's global \<open>solc_version\<close>, the locks this process
  holds; what it has done (lock operations, URLs requested, commands run); and what the
  outside answers: \<open>http\<close> to a request, \<open>subprocess\<close> to a command run in a working
  directory, \<open>archive_members\<close> the member paths of an archive given its bytes (\<open>None\<close>
  when the bytes are no archive), \<open>write_fails\<close> whether creating a path fails.
\<close>

datatype lock_op = Acquired string | Refused string | Waited string | Released string

record world =
  sys_platform :: string
  SOLCX_BINARY_PATH :: "string option"
  home :: string
  tempdir :: string
  getpid :: nat
  getcwd :: string
  fs :: "string set"
  solc_version :: "string option"
  held :: "string set"
  lock_log :: "lock_op list"
  requested :: "string list"
  executed :: "string list list"
  http :: "string \<Rightarrow> exn + response"
  subprocess :: "string \<Rightarrow> string list \<Rightarrow> exn + proc_result"
  tqdm_installed :: bool
  archive_members :: "string \<Rightarrow> string list option"
  write_fails :: "string \<Rightarrow> bool"

text \<open>Sequencing: an exception ends the computation, with the state reached.\<close>

definition bind_exn ::
  "(world \<Rightarrow> (exn + 'a) \<times> world) \<Rightarrow> ('a \<Rightarrow> world \<Rightarrow> (exn + 'b) \<times> world)
     \<Rightarrow> world \<Rightarrow> (exn + 'b) \<times> world" where
  "bind_exn m f w = (case m w of (Inl e, w') \<Rightarrow> (Inl e, w') | (Inr x, w') \<Rightarrow> f x w')"

text \<open>\<^verbatim>\<open>Path(p).joinpath(name)\<close> for a relative \<open>name\<close>.\<close>

definition joinpath :: "string \<Rightarrow> string \<Rightarrow> string" where
  "joinpath p name = p @ ''/'' @ name"

text \<open>\<open>p\<close> is \<open>d\<close> or lies below it.\<close>

definition under :: "string \<Rightarrow> string \<Rightarrow> bool" where
  "under d p = (p = d \<or> startswith p (d @ ''/''))"

text \<open>\<^verbatim>\<open>open(path, "wb")\<close> and the write: the path exists afterwards.\<close>

definition write_file :: "string \<Rightarrow> world \<Rightarrow> (exn + unit) \<times> world" where
  "write_file path w =
     (if write_fails w path then (Inl (OSError ''cannot write''), w)
      else (Inr (), w\<lparr>fs := insert path (fs w)\<rparr>))"

text \<open>
  \<^verbatim>\<open>src.rename(dst)\<close>: everything at and below \<open>src\<close> moves. Windows refuses an
  existing target.
\<close>

definition rename :: "string \<Rightarrow> string \<Rightarrow> world \<Rightarrow> (exn + unit) \<times> world" where
  "rename src dst w =
     (if src \<notin> fs w then (Inl (OSError ''FileNotFoundError''), w)
      else if write_fails w dst \<or> (dst \<in> fs w \<and> sys_platform w = ''win32'')
      then (Inl (OSError ''FileExistsError''), w)
      else (Inr (),
            w\<lparr>fs := (\<lambda>p. if under src p then dst @ drop (length src) p else p) ` fs w\<rparr>))"

text \<open>
  \<^verbatim>\<open>zipfile\<close>'s and \<^verbatim>\<open>tarfile\<close>'s \<^verbatim>\<open>extractall(target)\<close> on the downloaded bytes.
\<close>

definition extractall :: "string \<Rightarrow> string \<Rightarrow> world \<Rightarrow> (exn + unit) \<times> world" where
  "extractall archive target w =
     (case archive_members w archive of
        None \<Rightarrow> (Inl (OSError ''not an archive''), w)
      | Some members \<Rightarrow> (Inr (), w\<lparr>fs := fs w \<union> set (map (joinpath target) members)\<rparr>))"

text \<open>
  \<^verbatim>\<open>subprocess.check_call(command)\<close>: an exit status other than 0 raises
  \<^verbatim>\<open>CalledProcessError\<close>.
\<close>

definition check_call :: "string list \<Rightarrow> world \<Rightarrow> (exn + string) \<times> world" where
  "check_call cmd w =
     (let w1 = w\<lparr>executed := executed w @ [cmd]\<rparr> in
      case subprocess w (getcwd w) cmd of
        Inl e \<Rightarrow> (Inl e, w1)
      | Inr r \<Rightarrow>
          (let w2 = w1\<lparr>fs := fs w1 \<union> set (creates r)\<rparr> in
           if exit_status r \<noteq> 0 then (Inl (CalledProcessError cmd (exit_status r)), w2)
           else (Inr (stdout r), w2)))"

subsection \<open>The install lock\<close>

text \<open>
  Modelled from the spec: \<^verbatim>\<open>get_process_lock\<close> and the lock's \<^verbatim>\<open>acquire\<close>, \<^verbatim>\<open>wait\<close>
  and \<^verbatim>\<open>release\<close> (utils/lock.py) are not among the source files. The spec: "an
  exclusive, named, cross-process lock keyed by version string", with "a non-blocking
  try-acquire followed by a blocking wait for release". What the other processes do is a
  script, one event for each time this process tries the lock: \<open>Free\<close>, nobody holds it;
  \<open>Busy files\<close>, another process holds it and will have created \<open>files\<close> when it
  releases. A script that has run out means nobody else is there.
\<close>

datatype lock_event = Free | Busy "string list"

text \<open>\<^verbatim>\<open>lock.acquire(False)\<close>\<close>

definition lock_acquire :: "string \<Rightarrow> lock_event list \<Rightarrow> world \<Rightarrow> bool \<times> world" where
  "lock_acquire name others w =
     (case others of
        Busy files # later \<Rightarrow> (False, w\<lparr>lock_log := lock_log w @ [Refused name]\<rparr>)
      | _ \<Rightarrow> (True, w\<lparr>held := insert name (held w), lock_log := lock_log w @ [Acquired name]\<rparr>))"

text \<open>\<^verbatim>\<open>lock.wait()\<close>: returns when the holder has released.\<close>

definition lock_wait :: "string \<Rightarrow> lock_event list \<Rightarrow> world \<Rightarrow> world" where
  "lock_wait name others w =
     (case others of
        Busy files # later \<Rightarrow>
          w\<lparr>fs := fs w \<union> set files, lock_log := lock_log w @ [Waited name]\<rparr>
      | _ \<Rightarrow> w\<lparr>lock_log := lock_log w @ [Waited name]\<rparr>)"

text \<open>\<^verbatim>\<open>lock.release()\<close>\<close>

definition lock_release :: "string \<Rightarrow> world \<Rightarrow> world" where
  "lock_release name w =
     w\<lparr>held := held w - {name}, lock_log := lock_log w @ [Released name]\<rparr>"

subsection \<open>Platform, folder, executable\<close>

definition DOWNLOAD_BASE :: "string \<Rightarrow> string \<Rightarrow> string" where
  "DOWNLOAD_BASE version name =
     ''https://github.com/ethereum/solidity/releases/download/'' @ version @ ''/'' @ name"

definition get_platform :: "world \<Rightarrow> exn + string" where
  "get_platform w =
     (if startswith (sys_platform w) ''linux'' then Inr ''linux''
      else if sys_platform w = ''darwin'' \<or> sys_platform w = ''win32'' then Inr (sys_platform w)
      else Inl (KeyError ''Unknown platform''))"

text \<open>
  \<^verbatim>\<open>get_solc_folder\<close>: the environment variable wins when it is set and not empty; the
  default folder is created.
\<close>

definition get_solc_folder :: "string option \<Rightarrow> world \<Rightarrow> string \<times> world" where
  "get_solc_folder solcx_binary_path w =
     (case (case SOLCX_BINARY_PATH w of None \<Rightarrow> None | Some p \<Rightarrow> if p = [] then None else Some p) of
        Some p \<Rightarrow> (p, w)
      | None \<Rightarrow>
          (case solcx_binary_path of
             Some p \<Rightarrow> (p, w)
           | None \<Rightarrow>
               (let path = joinpath (home w) ''.solcx'' in (path, w\<lparr>fs := insert path (fs w)\<rparr>))))"


text \<open>\<^verbatim>\<open>get_executable(version, solcx_binary_path)\<close>; no version or an empty one is false.\<close>

definition get_executable :: "string option \<Rightarrow> string option \<Rightarrow> world \<Rightarrow> (exn + string) \<times> world" where
  "get_executable version solcx_binary_path w =
     (case (if version = None \<or> version = Some [] then solc_version w else version) of
        None \<Rightarrow> (Inl (SolcNotInstalled ''Solc is not installed.''), w)
      | Some v \<Rightarrow>
          if v = [] then (Inl (SolcNotInstalled ''Solc is not installed.''), w)
          else
            (case get_solc_folder solcx_binary_path w of (folder, w1) \<Rightarrow>
               (let solc_bin = joinpath folder (''solc-'' @ v);
                    solc_bin = (if sys_platform w1 = ''win32'' then joinpath solc_bin ''solc.exe''
                                else solc_bin)
                in if solc_bin \<notin> fs w1
                   then (Inl (SolcNotInstalled (''solc '' @ v @ '' has not been installed.'')), w1)
                   else (Inr solc_bin, w1))))"

text \<open>\<^verbatim>\<open>_check_version(version)\<close>: the normalised tag, \<^verbatim>\<open>v\<close> and the version.\<close>

definition check_version :: "string \<Rightarrow> exn + string" where
  "check_version version =
     (case parse_version (lstrip version ''v'') of
        Inl e \<Rightarrow> Inl e
      | Inr v \<Rightarrow>
          (case simple_spec ''>=0.4.11'' of
             Inl e \<Rightarrow> Inl e
           | Inr spec \<Rightarrow>
               if \<not> spec_match spec v
               then Inl (ValueError ''py-solc-x does not support solc versions <0.4.11'')
               else Inr (''v'' @ str_version v)))"

text \<open>\<^verbatim>\<open>set_solc_version(version, silent, solcx_binary_path)\<close>; logging is left out.\<close>

definition set_solc_version :: "string \<Rightarrow> bool \<Rightarrow> string option \<Rightarrow> world \<Rightarrow> (exn + unit) \<times> world" where
  "set_solc_version version silent solcx_binary_path w =
     (case check_version version of
        Inl e \<Rightarrow> (Inl e, w)
      | Inr version' \<Rightarrow>
          (case get_executable (Some version') solcx_binary_path w of
             (Inl e, w1) \<Rightarrow> (Inl e, w1)
           | (Inr binary, w1) \<Rightarrow> (Inr (), w1\<lparr>solc_version := Some version'\<rparr>)))"

text \<open>\<^verbatim>\<open>_check_subprocess_call(command)\<close>\<close>

definition check_subprocess_call :: "string list \<Rightarrow> world \<Rightarrow> (exn + unit) \<times> world" where
  "check_subprocess_call cmd = bind_exn (check_call cmd) (\<lambda>out w. (Inr (), w))"

text \<open>\<^verbatim>\<open>_chmod_plus_x(path)\<close>: \<^verbatim>\<open>stat\<close> needs the path to exist.\<close>

definition chmod_plus_x :: "string \<Rightarrow> world \<Rightarrow> (exn + unit) \<times> world" where
  "chmod_plus_x executable_path w =
     (if executable_path \<in> fs w then (Inr (), w) else (Inl (OSError ''FileNotFoundError''), w))"

text \<open>
  \<^verbatim>\<open>_check_for_installed_version\<close>: \<open>None\<close> for the \<^verbatim>\<open>False\<close> it returns when the path
  exists, the path otherwise.
\<close>

definition check_for_installed_version :: "string \<Rightarrow> string option \<Rightarrow> world \<Rightarrow> string option \<times> world" where
  "check_for_installed_version version solcx_binary_path w =
     (case get_solc_folder solcx_binary_path w of (folder, w1) \<Rightarrow>
        (let path = joinpath folder (''solc-'' @ version)
         in if path \<in> fs w1 then (None, w1) else (Some path, w1)))"

text \<open>\<^verbatim>\<open>_get_temp_folder()\<close>: a stale folder is removed with all below it.\<close>

definition get_temp_folder :: "world \<Rightarrow> string \<times> world" where
  "get_temp_folder w =
     (let path = joinpath (tempdir w) (''solcx-tmp-'' @ show_nat (getpid w));
          w1 = (if path \<in> fs w then w\<lparr>fs := Set.filter (\<lambda>p. \<not> under path p) (fs w)\<rparr> else w)
      in (path, w1\<lparr>fs := insert path (fs w1)\<rparr>))"

subsection \<open>Downloading\<close>

text \<open>\<^verbatim>\<open>content += data\<close> for each chunk: text cannot be added to bytes.\<close>

fun concat_chunks :: "string \<Rightarrow> chunk list \<Rightarrow> exn + string" where
  "concat_chunks content' [] = Inr content'"
| "concat_chunks content' (Bytes data # rest) = concat_chunks (content' @ data) rest"
| "concat_chunks content' (Text data # rest) = Inl (TypeError ''cannot concat str to bytes'')"

definition requests_get :: "string \<Rightarrow> world \<Rightarrow> (exn + response) \<times> world" where
  "requests_get url w = (http w url, w\<lparr>requested := requested w @ [url]\<rparr>)"

text \<open>
  \<^verbatim>\<open>_download_solc(url, show_progress)\<close>. On a status other than 200 the code builds
  the message of its \<^verbatim>\<open>DownloadError\<close> from \<^verbatim>\<open>response.status_url\<close>; the response has
  no such attribute, so evaluating the message raises \<^verbatim>\<open>AttributeError\<close> and the
  \<^verbatim>\<open>DownloadError\<close> is never constructed.
\<close>

definition download_solc :: "string \<Rightarrow> bool \<Rightarrow> world \<Rightarrow> (exn + string) \<times> world" where
  "download_solc url show_progress =
     bind_exn (requests_get url) (\<lambda>response w.
       case (if \<not> show_progress then Inr (content response)
             else (case content_length response of
                     None \<Rightarrow> Inl (ValueError ''invalid literal for int()'')
                   | Some total_size \<Rightarrow>
                       if \<not> tqdm_installed w
                       then Inl (TypeError ''NoneType object is not callable'')
                       else concat_chunks [] (iter_content response))) of
         Inl e \<Rightarrow> (Inl e, w)
       | Inr content' \<Rightarrow>
           if status_code response \<noteq> 200
           then (Inl (AttributeError ''Response object has no attribute status_url''), w)
           else (Inr content', w))"

subsection \<open>The three install strategies\<close>

definition install_solc_linux :: "string \<Rightarrow> bool \<Rightarrow> string option \<Rightarrow> world \<Rightarrow> (exn + unit) \<times> world" where
  "install_solc_linux version show_progress solcx_binary_path w =
     (let download = DOWNLOAD_BASE version ''solc-static-linux'' in
      case check_for_installed_version version solcx_binary_path w of
        (None, w1) \<Rightarrow> (Inr (), w1)
      | (Some binary_path, w1) \<Rightarrow>
          bind_exn (download_solc download show_progress) (\<lambda>content'.
          bind_exn (write_file binary_path) (\<lambda>_.
          chmod_plus_x binary_path)) w1)"

text \<open>
  \<^verbatim>\<open>_install_solc_windows\<close> asks \<^verbatim>\<open>_check_for_installed_version(version)\<close> without the
  \<^verbatim>\<open>solcx_binary_path\<close> it was given, and so does \<^verbatim>\<open>_install_solc_osx\<close>.
\<close>

definition install_solc_windows :: "string \<Rightarrow> bool \<Rightarrow> string option \<Rightarrow> world \<Rightarrow> (exn + unit) \<times> world" where
  "install_solc_windows version show_progress solcx_binary_path w =
     (let download = DOWNLOAD_BASE version ''solidity-windows.zip'' in
      case check_for_installed_version version None w of
        (None, w1) \<Rightarrow> (Inr (), w1)
      | (Some install_folder, w1) \<Rightarrow>
          (case get_temp_folder w1 of (temp_path, w2) \<Rightarrow>
             bind_exn (download_solc download show_progress) (\<lambda>content'.
             bind_exn (extractall content' temp_path) (\<lambda>_ w3.
               case get_solc_folder solcx_binary_path w3 of (folder, w4) \<Rightarrow>
                 rename temp_path (joinpath folder (''solc-'' @ version)) w4)) w2))"

text \<open>
  The dependency script of the source build: a \<^verbatim>\<open>CalledProcessError\<close> is logged and
  the build goes on.
\<close>

definition install_deps :: "string \<Rightarrow> world \<Rightarrow> (exn + unit) \<times> world" where
  "install_deps temp_path w =
     (case check_subprocess_call [''sh'', joinpath temp_path ''scripts/install_deps.sh''] w of
        (Inl (CalledProcessError cmd status), w1) \<Rightarrow> (Inr (), w1)
      | (r, w1) \<Rightarrow> (r, w1))"

text \<open>
  The build in \<open>temp_path/build\<close>: a \<^verbatim>\<open>CalledProcessError\<close> becomes an \<^verbatim>\<open>OSError\<close>,
  and the working directory is restored on every path.
\<close>

definition build_solc :: "string \<Rightarrow> string \<Rightarrow> world \<Rightarrow> (exn + unit) \<times> world" where
  "build_solc temp_path binary_path w =
     (let original_path = getcwd w;
          w1 = w\<lparr>fs := insert (joinpath temp_path ''build'') (fs w)\<rparr>;
          w2 = w1\<lparr>getcwd := joinpath temp_path ''build''\<rparr>
      in case bind_exn (check_subprocess_call [''cmake'', ''..'']) (\<lambda>_.
              bind_exn (check_subprocess_call [''make'']) (\<lambda>_.
              rename (joinpath temp_path ''build/solc/solc'') binary_path)) w2 of
           (Inl (CalledProcessError cmd status), w3) \<Rightarrow>
             (Inl (OSError ''returned non-zero exit status while attempting to build solc''),
              w3\<lparr>getcwd := original_path\<rparr>)
         | (r, w3) \<Rightarrow> (r, w3\<lparr>getcwd := original_path\<rparr>))"

definition install_solc_osx ::
  "string \<Rightarrow> bool \<Rightarrow> bool \<Rightarrow> string option \<Rightarrow> world \<Rightarrow> (exn + unit) \<times> world" where
  "install_solc_osx version allow_osx show_progress solcx_binary_path w =
     (if startswith version ''v0.4'' \<and> \<not> allow_osx
      then (Inl (ValueError ''Py-solc-x cannot build solc versions 0.4.x on OSX.''), w)
      else
        (case get_temp_folder w of (temp_path, w1) \<Rightarrow>
           (let download = DOWNLOAD_BASE version (''solidity_'' @ drop 1 version @ ''.tar.gz'') in
            case check_for_installed_version version None w1 of
              (None, w2) \<Rightarrow> (Inr (), w2)
            | (Some binary_path, w2) \<Rightarrow>
                bind_exn (download_solc download show_progress) (\<lambda>content'.
                bind_exn (extractall content' temp_path) (\<lambda>_.
                (let temp_path' = joinpath temp_path (''solidity_'' @ drop 1 version) in
                 bind_exn (install_deps temp_path') (\<lambda>_.
                 bind_exn (build_solc temp_path' binary_path) (\<lambda>_.
                 chmod_plus_x binary_path))))) w2)))"

subsection \<open>install_solc\<close>

text \<open>The \<^verbatim>\<open>try\<close> block of \<^verbatim>\<open>install_solc\<close>, entered with the lock held.\<close>

definition install_attempt ::
  "string \<Rightarrow> string \<Rightarrow> bool \<Rightarrow> bool \<Rightarrow> string option \<Rightarrow> world \<Rightarrow> (exn + unit) \<times> world" where
  "install_attempt platform version allow_osx show_progress solcx_binary_path =
     bind_exn
       (if platform = ''linux'' then install_solc_linux version show_progress solcx_binary_path
        else if platform = ''darwin''
        then install_solc_osx version allow_osx show_progress solcx_binary_path
        else if platform = ''win32''
        then install_solc_windows version show_progress solcx_binary_path
        else (\<lambda>w. (Inr (), w)))
       (\<lambda>_.
     bind_exn (get_executable (Some version) solcx_binary_path) (\<lambda>binary_path.
     bind_exn (check_subprocess_call [binary_path, ''--version'']) (\<lambda>_ w.
       if solc_version w = None \<or> solc_version w = Some []
       then set_solc_version version False None w
       else (Inr (), w))))"

lemma lock_acquire_refused:
  "(False, w1) = lock_acquire name others w \<Longrightarrow> length (tl others) < length others"
  by (auto simp: lock_acquire_def split: list.splits lock_event.splits)

text \<open>
  \<^verbatim>\<open>install_solc(version, allow_osx, show_progress, solcx_binary_path)\<close>; \<open>others\<close> is
  what the other processes do with the lock. When the lock is held elsewhere the call
  waits and, unless the version is installed by then, calls itself with \<open>version\<close> and
  \<open>allow_osx\<close> alone; the \<^verbatim>\<open>finally\<close> releases the lock whatever the \<^verbatim>\<open>try\<close> block did.
\<close>

function install_solc ::
  "string \<Rightarrow> bool \<Rightarrow> bool \<Rightarrow> string option \<Rightarrow> lock_event list \<Rightarrow> world \<Rightarrow> (exn + unit) \<times> world" where
  "install_solc version allow_osx show_progress solcx_binary_path others w =
     (case get_platform w of
        Inl e \<Rightarrow> (Inl e, w)
      | Inr platform \<Rightarrow>
          (case check_version version of
             Inl e \<Rightarrow> (Inl e, w)
           | Inr version' \<Rightarrow>
               (case lock_acquire version' others w of (acquired, w1) \<Rightarrow>
                  if \<not> acquired then
                    (let w2 = lock_wait version' others w1 in
                     case check_for_installed_version version' None w2 of
                       (None, w3) \<Rightarrow> (Inr (), w3)
                     | (Some path, w3) \<Rightarrow>
                         install_solc version' allow_osx False None (tl others) w3)
                  else
                    (case install_attempt platform version' allow_osx show_progress
                            solcx_binary_path w1 of
                       (r, w2) \<Rightarrow> (r, lock_release version' w2)))))"
  by pat_completeness auto
termination
  by (relation "measure (\<lambda>(version, allow_osx, show_progress, path, others, w). length others)")
     (auto dest!: lock_acquire_refused)

declare install_solc.simps [simp del]

section \<open>Notions and sample inputs used in the statements\<close>

text \<open>The value an entry of a JSON array has under a key, when the entry is an object.\<close>

definition entry_field :: "json \<Rightarrow> string \<Rightarrow> json option" where
  "entry_field e key = (case e of JObj kvs \<Rightarrow> map_of kvs key | _ \<Rightarrow> None)"

text \<open>The entries of severity error, in order.\<close>

definition error_entries :: "json list \<Rightarrow> json list" where
  "error_entries errors = filter (\<lambda>e. entry_field e ''severity'' = Some (JStr ''error'')) errors"

text \<open>
  A contract entry as the compiler writes it: an object whose \<open>abi\<close>, when it has one, is
  JSON text. A source entry is an object.
\<close>

definition contract_wellformed :: "json_module \<Rightarrow> json \<Rightarrow> bool" where
  "contract_wellformed js data =
     (case data of
        JObj kvs \<Rightarrow>
          (case map_of kvs ''abi'' of
             None \<Rightarrow> True
           | Some (JStr text) \<Rightarrow> loads js text \<noteq> None
           | Some other \<Rightarrow> False)
      | _ \<Rightarrow> False)"

definition is_object :: "json \<Rightarrow> bool" where
  "is_object x = (case x of JObj kvs \<Rightarrow> True | _ \<Rightarrow> False)"

text \<open>A wrapper that returns the given standard output, whatever it is asked.\<close>

definition fixed_wrapper :: "string \<Rightarrow> kwargs \<Rightarrow> exn + wrapper_result" where
  "fixed_wrapper out kw =
     Inr \<lparr>stdoutdata = out, stderrdata = [], command = [''solc''], returncode = 0\<rparr>"

text \<open>What \<^verbatim>\<open>solc --version\<close> prints.\<close>

definition solc_banner :: string where
  "solc_banner =
     ''solc, the solidity compiler commandline interface\<newline>Version: 0.8.1+commit.abc\<newline>''"

text \<open>
  A world for the examples: the given platform, existing paths and active version; every
  request is answered with the given status, every command exits with 0 and prints the
  banner.
\<close>

definition sample_world :: "string \<Rightarrow> string set \<Rightarrow> string option \<Rightarrow> int \<Rightarrow> world" where
  "sample_world platform files active status =
     \<lparr>sys_platform = platform, SOLCX_BINARY_PATH = None, home = ''/home/user'',
      tempdir = ''/tmp'', getpid = 1, getcwd = ''/home/user'', fs = files,
      solc_version = active, held = {}, lock_log = [], requested = [], executed = [],
      http = (\<lambda>url. Inr \<lparr>status_code = status, content = ''solc'', content_length = Some 4,
                          iter_content = [Bytes ''solc'']\<rparr>),
      subprocess = (\<lambda>cwd cmd. Inr \<lparr>exit_status = 0, stdout = solc_banner, creates = []\<rparr>),
      tqdm_installed = False, archive_members = (\<lambda>a. None), write_fails = (\<lambda>p. False)\<rparr>"


text \<open>
  The path \<^verbatim>\<open>_check_for_installed_version\<close> tests for a version, and the path of the
  executable \<^verbatim>\<open>get_executable\<close> looks for (on Windows the \<^verbatim>\<open>solc.exe\<close> inside).
\<close>

definition installed_path :: "string \<Rightarrow> string option \<Rightarrow> world \<Rightarrow> string" where
  "installed_path version solcx_binary_path w =
     joinpath (fst (get_solc_folder solcx_binary_path w)) (''solc-'' @ version)"

definition executable_path :: "string \<Rightarrow> string option \<Rightarrow> world \<Rightarrow> string" where
  "executable_path version solcx_binary_path w =
     (if sys_platform w = ''win32''
      then joinpath (installed_path version solcx_binary_path w) ''solc.exe''
      else installed_path version solcx_binary_path w)"



text \<open>What an operation that downloads nothing leaves as it was.\<close>

definition same_env :: "world \<Rightarrow> world \<Rightarrow> bool" where
  "same_env w w' =
     (sys_platform w' = sys_platform w \<and> SOLCX_BINARY_PATH w' = SOLCX_BINARY_PATH w
      \<and> home w' = home w \<and> tempdir w' = tempdir w \<and> getpid w' = getpid w
      \<and> getcwd w' = getcwd w \<and> subprocess w' = subprocess w
      \<and> requested w' = requested w \<and> solc_version w' = solc_version w)"

text \<open>An operation that leaves the locks of this process and their log alone.\<close>

definition keeps_locks :: "(world \<Rightarrow> 'a \<times> world) \<Rightarrow> bool" where
  "keeps_locks m = (\<forall>w r w'. m w = (r, w') \<longrightarrow> held w' = held w \<and> lock_log w' = lock_log w)"


text \<open>
  Compiler outputs for the examples, and a \<^verbatim>\<open>json\<close> module that reads them (what it
  writes plays no part in the examples).
\<close>

definition empty_output :: string where
  "empty_output = ''{\"contracts\": {}}''"

definition combined_output :: string where
  "combined_output =
     ''{\"contracts\": {\"a.sol:A\": {\"abi\": \"[]\"}}, \"sources\": {\"a.sol\": {\"AST\": {}}}}''"

definition warning_output :: string where
  "warning_output = ''{\"errors\": [{\"severity\": \"warning\"}]}''"

definition error_output :: string where
  "error_output = ''{\"errors\": [{\"severity\": \"error\", \"formattedMessage\": \"X\"}]}''"

definition sample_json :: json_module where
  "sample_json =
     \<lparr>loads = (\<lambda>s.
        if s = empty_output then Some (JObj [(''contracts'', JObj [])])
        else if s = combined_output
        then Some (JObj [(''contracts'', JObj [(''a.sol:A'', JObj [(''abi'', JStr ''[]'')])]),
                         (''sources'', JObj [(''a.sol'', JObj [(''AST'', JObj [])])])])
        else if s = ''[]'' then Some (JArr [])
        else if s = warning_output
        then Some (JObj [(''errors'', JArr [JObj [(''severity'', JStr ''warning'')]])])
        else if s = error_output
        then Some (JObj [(''errors'',
               JArr [JObj [(''severity'', JStr ''error''), (''formattedMessage'', JStr ''X'')]])])
        else None),
      dumps = (\<lambda>x. ''{}''), dumps_sorted = (\<lambda>x. ''{}'')\<rparr>"

text \<open>A standard-JSON request with one source.\<close>

definition sample_input :: json where
  "sample_input = JObj [(''language'', JStr ''Solidity''), (''sources'', JObj [(''a.sol'', JObj [])])]"

section \<open>Properties of main.py\<close>

subsection \<open>Version string extraction\<close>

















subsection \<open>Standard JSON: errors and warnings\<close>

lemma py_getitem_entry_field: "entry_field e key = Some v \<Longrightarrow> py_getitem e key = Inr v"
  by (cases e) (simp_all add: entry_field_def)

lemma any_error_none:
  "list_all (\<lambda>e. \<exists>s. entry_field e ''severity'' = Some s \<and> s \<noteq> JStr ''error'') errors
   \<Longrightarrow> any_error errors = Inr False"
  by (induction errors) (auto simp: py_getitem_entry_field)

lemma any_error_some:
  "list_all (\<lambda>e. entry_field e ''severity'' \<noteq> None) errors \<Longrightarrow> error_entries errors \<noteq> []
   \<Longrightarrow> any_error errors = Inr True"
  by (induction errors) (auto simp: py_getitem_entry_field error_entries_def)

lemma formatted_messages_errors:
  "list_all (\<lambda>e. entry_field e ''severity'' \<noteq> None) errors
   \<Longrightarrow> map (\<lambda>e. entry_field e ''formattedMessage'') (error_entries errors) =
         map (\<lambda>m. Some (JStr m)) msgs
   \<Longrightarrow> formatted_messages errors = Inr (map JStr msgs)"
proof (induction errors arbitrary: msgs)
  case Nil
  then show ?case by (simp add: error_entries_def)
next
  case (Cons e errors)
  from Cons.prems(1) obtain s where s: "entry_field e ''severity'' = Some s" by auto
  show ?case
  proof (cases "s = JStr ''error''")
    case True
    with s Cons.prems(2) obtain m ms where msgs: "msgs = m # ms"
      and m: "entry_field e ''formattedMessage'' = Some (JStr m)"
      and ms: "map (\<lambda>e. entry_field e ''formattedMessage'') (error_entries errors) =
                 map (\<lambda>m. Some (JStr m)) ms"
      by (cases msgs) (auto simp: error_entries_def)
    from Cons.IH[OF _ ms] Cons.prems(1) have "formatted_messages errors = Inr (map JStr ms)"
      by simp
    with s True m msgs show ?thesis by (simp add: py_getitem_entry_field)
  next
    case False
    with s Cons.prems(2)
    have "map (\<lambda>e. entry_field e ''formattedMessage'') (error_entries errors) =
            map (\<lambda>m. Some (JStr m)) msgs"
      by (simp add: error_entries_def)
    from Cons.IH[OF _ this] Cons.prems(1) have "formatted_messages errors = Inr (map JStr msgs)"
      by simp
    with s False show ?thesis by (simp add: py_getitem_entry_field)
  qed
qed

lemma str_items_JStr: "str_items (map JStr msgs) = Some msgs"
  by (induction msgs) simp_all

text \<open>
  C5. Let \<^verbatim>\<open>compile_standard\<close> run the compiler (the request has sources or
  \<open>allow_empty\<close> is set) and let the output be an object whose \<open>errors\<close> is an array.
  If every entry has severity \<open>warning\<close>, the call returns the whole parsed output. If
  every entry has a severity, at least one has severity \<open>error\<close>, and the
  \<open>formattedMessage\<close> fields of the entries of severity \<open>error\<close> are the strings \<open>msgs\<close>,
  the call raises \<^verbatim>\<open>SolcError\<close> whose message is \<open>msgs\<close> joined by newlines.
\<close>

theorem compile_standard_severity:
  assumes sources: "py_get input_data ''sources'' = Inr src"
      "(case src of None \<Rightarrow> False | Some v \<Rightarrow> truthy v) \<or> allow_empty"
    and kw: "map_of kwargs ''stdin'' = None" "map_of kwargs ''standard_json'' = None"
    and run: "solc_wrapper ((''stdin'', ArgStr (dumps js input_data))
                # (''standard_json'', ArgBool True) # kwargs) = Inr r"
    and out: "loads js (stdoutdata r) = Some (JObj out)"
      "map_of out ''errors'' = Some (JArr errors)"
  shows "(list_all (\<lambda>e. entry_field e ''severity'' = Some (JStr ''warning'')) errors
           \<longrightarrow> compile_standard js solc_wrapper input_data allow_empty kwargs = Inr (JObj out))
       \<and> (list_all (\<lambda>e. entry_field e ''severity'' \<noteq> None) errors
            \<and> error_entries errors \<noteq> []
            \<and> map (\<lambda>e. entry_field e ''formattedMessage'') (error_entries errors) =
                map (\<lambda>m. Some (JStr m)) msgs
           \<longrightarrow> compile_standard js solc_wrapper input_data allow_empty kwargs =
                 Inl (SolcError
                   \<lparr>err_command = Some (command r), err_return_code = Some (returncode r),
                    stdin_data = Some (dumps js input_data), stdout_data = Some (stdoutdata r),
                    stderr_data = Some (stderrdata r),
                    message = Some (join ''\<newline>'' msgs)\<rparr>))"
proof (intro conjI impI)
  assume "list_all (\<lambda>e. entry_field e ''severity'' = Some (JStr ''warning'')) errors"
  then have "list_all (\<lambda>e. \<exists>s. entry_field e ''severity'' = Some s \<and> s \<noteq> JStr ''error'') errors"
    by (simp add: list_all_iff)
  then have "any_error errors = Inr False" by (rule any_error_none)
  with assms show "compile_standard js solc_wrapper input_data allow_empty kwargs = Inr (JObj out)"
    by (auto simp: compile_standard_def)
next
  assume e: "list_all (\<lambda>e. entry_field e ''severity'' \<noteq> None) errors
            \<and> error_entries errors \<noteq> []
            \<and> map (\<lambda>e. entry_field e ''formattedMessage'') (error_entries errors) =
                map (\<lambda>m. Some (JStr m)) msgs"
  then have a: "any_error errors = Inr True" by (simp add: any_error_some)
  from e have f: "formatted_messages errors = Inr (map JStr msgs)"
    by (simp add: formatted_messages_errors)
  from assms a f show "compile_standard js solc_wrapper input_data allow_empty kwargs =
                 Inl (SolcError
                   \<lparr>err_command = Some (command r), err_return_code = Some (returncode r),
                    stdin_data = Some (dumps js input_data), stdout_data = Some (stdoutdata r),
                    stderr_data = Some (stderrdata r),
                    message = Some (join ''\<newline>'' msgs)\<rparr>)"
    by (auto simp: compile_standard_def py_join_def str_items_JStr)
qed

theorem compile_standard_severity_witness:
  "compile_standard sample_json (fixed_wrapper warning_output) sample_input False [] =
     Inr (JObj [(''errors'', JArr [JObj [(''severity'', JStr ''warning'')]])])
   \<and> compile_standard sample_json (fixed_wrapper error_output) sample_input False [] =
     Inl (SolcError
       \<lparr>err_command = Some [''solc''], err_return_code = Some 0, stdin_data = Some ''{}'',
        stdout_data = Some error_output, stderr_data = Some [], message = Some ''X''\<rparr>)"
  using
    compile_standard_severity[where js = sample_json and input_data = sample_input
      and src = "Some (JObj [(''a.sol'', JObj [])])" and allow_empty = False and kwargs = "[]"
      and solc_wrapper = "fixed_wrapper warning_output"
      and r = "\<lparr>stdoutdata = warning_output, stderrdata = [], command = [''solc''],
                returncode = 0\<rparr>"
      and out = "[(''errors'', JArr [JObj [(''severity'', JStr ''warning'')]])]"
      and errors = "[JObj [(''severity'', JStr ''warning'')]]" and msgs = "[]"]
    compile_standard_severity[where js = sample_json and input_data = sample_input
      and src = "Some (JObj [(''a.sol'', JObj [])])" and allow_empty = False and kwargs = "[]"
      and solc_wrapper = "fixed_wrapper error_output"
      and r = "\<lparr>stdoutdata = error_output, stderrdata = [], command = [''solc''],
                returncode = 0\<rparr>"
      and out = "[(''errors'',
               JArr [JObj [(''severity'', JStr ''error''), (''formattedMessage'', JStr ''X'')]])]"
      and errors = "[JObj [(''severity'', JStr ''error''), (''formattedMessage'', JStr ''X'')]]"
      and msgs = "[''X'']"]
  by (simp add: sample_json_def sample_input_def fixed_wrapper_def entry_field_def
      error_entries_def warning_output_def error_output_def empty_output_def
      combined_output_def)

subsection \<open>Combined JSON: the contracts\<close>

lemma parse_contracts_lookup:
  "parse_contracts js sources items = Inr result \<Longrightarrow> map_of items path_str = Some data
   \<Longrightarrow> \<exists>data'. parse_contract js sources path_str data = Inr data'
            \<and> map_of result path_str = Some data'"
proof (induction items arbitrary: result)
  case Nil
  then show ?case by simp
next
  case (Cons item items)
  obtain p d where item: "item = (p, d)" by (cases item)
  from Cons.prems(1) item obtain d' rest' where
    d': "parse_contract js sources p d = Inr d'" and
    rest': "parse_contracts js sources items = Inr rest'" and
    result: "result = (p, d') # rest'"
    by (auto split: sum.splits)
  show ?case
  proof (cases "p = path_str")
    case True
    with Cons.prems(2) item d' result show ?thesis by simp
  next
    case False
    with Cons.prems(2) item have "map_of items path_str = Some data" by simp
    from Cons.IH[OF rest' this] False result show ?thesis by simp
  qed
qed

lemma parse_contract_hoists:
  assumes "map_of data ''abi'' = Some (JStr abi_text)" "loads js abi_text = Some abi"
    "map_of sources (rsplit_colon_head path_str) = Some (JObj entry)"
    "map_of entry ''AST'' = Some ast"
  shows "parse_contract js (JObj sources) path_str (JObj data) =
           Inr (JObj (AList.update ''ast'' ast (AList.update ''abi'' abi data)))"
  using assms by (simp add: parse_contract_def py_get_or_empty_def)

lemma parse_contract_returns:
  assumes "contract_wellformed js data" and "list_all (\<lambda>kv. is_object (snd kv)) sources"
  shows "\<exists>data'. parse_contract js (JObj sources) path_str data = Inr data'"
proof -
  from assms(1) obtain kvs where data: "data = JObj kvs"
    by (cases data) (simp_all add: contract_wellformed_def)
  have abi: "\<exists>kvs'. (case py_in ''abi'' data of
              Inl e \<Rightarrow> Inl e
            | Inr False \<Rightarrow> Inr data
            | Inr True \<Rightarrow>
                (case py_getitem data ''abi'' of
                   Inl e \<Rightarrow> Inl e
                 | Inr (JStr text) \<Rightarrow>
                     (case loads js text of
                        None \<Rightarrow> Inl JSONDecodeError
                      | Some abi \<Rightarrow> py_setitem data ''abi'' abi)
                 | Inr other \<Rightarrow>
                     Inl (TypeError ''the JSON object must be str, bytes or bytearray''))) = Inr (JObj kvs')"
    using assms(1) unfolding data
    by (auto simp: contract_wellformed_def split: option.splits json.splits)
  then obtain kvs' where abi': "(case py_in ''abi'' data of
              Inl e \<Rightarrow> Inl e
            | Inr False \<Rightarrow> Inr data
            | Inr True \<Rightarrow>
                (case py_getitem data ''abi'' of
                   Inl e \<Rightarrow> Inl e
                 | Inr (JStr text) \<Rightarrow>
                     (case loads js text of
                        None \<Rightarrow> Inl JSONDecodeError
                      | Some abi \<Rightarrow> py_setitem data ''abi'' abi)
                 | Inr other \<Rightarrow>
                     Inl (TypeError ''the JSON object must be str, bytes or bytearray''))) = Inr (JObj kvs')"
    by blast
  let ?key = "rsplit_colon_head path_str"
  show ?thesis
  proof (cases "map_of sources ?key")
    case None
    with abi' show ?thesis by (simp add: parse_contract_def py_get_or_empty_def)
  next
    case (Some entry)
    then have "(?key, entry) \<in> set sources" by (rule map_of_SomeD)
    with assms(2) have "is_object entry" by (auto simp: list_all_iff)
    then obtain ekv where entry: "entry = JObj ekv" by (cases entry) (simp_all add: is_object_def)
    from abi' Some entry show ?thesis
      by (cases "map_of ekv ''AST''") (simp_all add: parse_contract_def py_get_or_empty_def)
  qed
qed

lemma parse_contracts_returns:
  assumes "list_all (\<lambda>kv. contract_wellformed js (snd kv)) contracts"
    and "list_all (\<lambda>kv. is_object (snd kv)) sources"
  shows "\<exists>result. parse_contracts js (JObj sources) contracts = Inr result"
  using assms(1)
proof (induction contracts)
  case Nil
  then show ?case by simp
next
  case (Cons item contracts)
  obtain p d where item: "item = (p, d)" by (cases item)
  from Cons.prems item have "contract_wellformed js d" by simp
  from parse_contract_returns[OF this assms(2)] obtain d' where
    "parse_contract js (JObj sources) p d = Inr d'" by blast
  moreover from Cons obtain rest' where "parse_contracts js (JObj sources) contracts = Inr rest'"
    by auto
  ultimately show ?case using item by simp
qed

text \<open>
  C6. Let the combined output be an object with a \<open>contracts\<close> and a \<open>sources\<close>
  dictionary, let the contract under \<open>path_str\<close> carry an \<open>abi\<close> that is a string of JSON
  text which \<^verbatim>\<open>json.loads\<close> reads as \<open>abi\<close>, and let the source whose key is the part of
  \<open>path_str\<close> before its last colon carry an \<open>AST\<close>. Then every result of
  \<^verbatim>\<open>_parse_compiler_output\<close> has, under \<open>path_str\<close>, a dictionary whose \<open>abi\<close> is the
  value read (no longer the text) and whose \<open>ast\<close> is the source's \<open>AST\<close>; and there is
  a result when all contract and source entries are as the compiler writes them.
\<close>

theorem parse_compiler_output_hoists:
  assumes "loads js stdoutdata' = Some (JObj payload)"
    and "map_of payload ''contracts'' = Some (JObj contracts)"
    and "map_of payload ''sources'' = Some (JObj sources)"
    and "map_of contracts path_str = Some (JObj data)"
    and "map_of data ''abi'' = Some (JStr abi_text)" and "loads js abi_text = Some abi"
    and "map_of sources (rsplit_colon_head path_str) = Some (JObj entry)"
    and "map_of entry ''AST'' = Some ast"
  shows "(\<forall>result. parse_compiler_output js stdoutdata' = Inr result \<longrightarrow>
            (\<exists>data'. map_of result path_str = Some (JObj data')
               \<and> map_of data' ''abi'' = Some abi \<and> map_of data' ''ast'' = Some ast))
       \<and> (list_all (\<lambda>kv. contract_wellformed js (snd kv)) contracts
            \<and> list_all (\<lambda>kv. is_object (snd kv)) sources \<longrightarrow>
            (\<exists>result. parse_compiler_output js stdoutdata' = Inr result))"
proof (intro conjI allI impI)
  fix result
  assume r: "parse_compiler_output js stdoutdata' = Inr result"
  from assms(1,2,3) r have "parse_contracts js (JObj sources) contracts = Inr result"
    by (simp add: parse_compiler_output_def py_get_or_empty_def)
  from parse_contracts_lookup[OF this assms(4)] parse_contract_hoists[OF assms(5,6,7,8)]
  have "map_of result path_str =
          Some (JObj (AList.update ''ast'' ast (AList.update ''abi'' abi data)))"
    by auto
  then show "\<exists>data'. map_of result path_str = Some (JObj data')
               \<and> map_of data' ''abi'' = Some abi \<and> map_of data' ''ast'' = Some ast"
    by (auto simp: update_conv')
next
  assume "list_all (\<lambda>kv. contract_wellformed js (snd kv)) contracts
            \<and> list_all (\<lambda>kv. is_object (snd kv)) sources"
  then obtain result where "parse_contracts js (JObj sources) contracts = Inr result"
    using parse_contracts_returns by blast
  with assms(1,2,3) show "\<exists>result. parse_compiler_output js stdoutdata' = Inr result"
    by (simp add: parse_compiler_output_def py_get_or_empty_def)
qed

theorem parse_compiler_output_hoists_witness:
  "parse_compiler_output sample_json combined_output =
     Inr [(''a.sol:A'', JObj [(''abi'', JArr []), (''ast'', JObj [])])]
   \<and> (\<exists>data'. map_of [(''a.sol:A'', JObj [(''abi'', JArr []), (''ast'', JObj [])])] ''a.sol:A'' =
                 Some (JObj data')
          \<and> map_of data' ''abi'' = Some (JArr []) \<and> map_of data' ''ast'' = Some (JObj []))"
proof -
  have run: "parse_compiler_output sample_json combined_output =
     Inr [(''a.sol:A'', JObj [(''abi'', JArr []), (''ast'', JObj [])])]"
    by (simp add: parse_compiler_output_def py_get_or_empty_def parse_contract_def
        sample_json_def combined_output_def empty_output_def rsplit_colon_head_def)
  have "(\<forall>result. parse_compiler_output sample_json combined_output = Inr result \<longrightarrow>
            (\<exists>data'. map_of result ''a.sol:A'' = Some (JObj data')
               \<and> map_of data' ''abi'' = Some (JArr []) \<and> map_of data' ''ast'' = Some (JObj [])))
       \<and> (list_all (\<lambda>kv. contract_wellformed sample_json (snd kv))
              [(''a.sol:A'', JObj [(''abi'', JStr ''[]'')])]
            \<and> list_all (\<lambda>kv. is_object (snd kv)) [(''a.sol'', JObj [(''AST'', JObj [])])] \<longrightarrow>
            (\<exists>result. parse_compiler_output sample_json combined_output = Inr result))"
    by (rule parse_compiler_output_hoists[where
          payload = "[(''contracts'', JObj [(''a.sol:A'', JObj [(''abi'', JStr ''[]'')])]),
                      (''sources'', JObj [(''a.sol'', JObj [(''AST'', JObj [])])])]"
          and data = "[(''abi'', JStr ''[]'')]" and abi_text = "''[]''"
          and entry = "[(''AST'', JObj [])]"])
       (simp_all add: sample_json_def combined_output_def empty_output_def
          rsplit_colon_head_def)
  with run show ?thesis by blast
qed

text \<open>
  C7. When the output parses to an object whose \<open>contracts\<close> is the empty dictionary (or
  is absent), \<^verbatim>\<open>compile_source\<close> and \<^verbatim>\<open>compile_files\<close>, called without the keywords
  they refuse, return the empty mapping if \<open>allow_empty\<close> is set and raise
  \<^verbatim>\<open>ContractsNotFound\<close> otherwise.
\<close>

theorem compile_empty_contracts:
  assumes "loads js (stdoutdata r) = Some (JObj payload)"
    and "map_of payload ''contracts'' = None \<or> map_of payload ''contracts'' = Some (JObj [])"
  shows "(map_of kwargs ''stdin'' = None \<and> map_of kwargs ''combined_json'' = None
          \<and> solc_wrapper ((''stdin'', ArgStr source)
                # (''combined_json'', ArgStr (join '','' output_values)) # kwargs) = Inr r
          \<longrightarrow> compile_source js solc_wrapper source allow_empty output_values kwargs =
               (if allow_empty then Inr []
                else Inl (ContractsNotFound
                       \<lparr>err_command = Some (command r), err_return_code = Some (returncode r),
                        stdin_data = Some source, stdout_data = Some (stdoutdata r),
                        stderr_data = Some (stderrdata r), message = None\<rparr>)))
       \<and> (map_of kwargs ''combined_json'' = None
          \<and> solc_wrapper ((''source_files'', ArgList source_files)
                # (''combined_json'', ArgStr (join '','' output_values)) # kwargs) = Inr r
          \<longrightarrow> compile_files js solc_wrapper source_files allow_empty output_values kwargs =
               (if allow_empty then Inr []
                else Inl (ContractsNotFound
                       \<lparr>err_command = Some (command r), err_return_code = Some (returncode r),
                        stdin_data = None, stdout_data = Some (stdoutdata r),
                        stderr_data = Some (stderrdata r), message = None\<rparr>)))"
proof -
  from assms have "parse_compiler_output js (stdoutdata r) = Inr []"
    by (auto simp: parse_compiler_output_def py_get_or_empty_def split: option.splits)
  then show ?thesis
    by (simp add: compile_source_def compile_files_def)
qed

theorem compile_empty_contracts_witness:
  "compile_source sample_json (fixed_wrapper empty_output) ''contract A {}'' False
       ALL_OUTPUT_VALUES [] =
     Inl (ContractsNotFound
       \<lparr>err_command = Some [''solc''], err_return_code = Some 0,
        stdin_data = Some ''contract A {}'', stdout_data = Some empty_output,
        stderr_data = Some [], message = None\<rparr>)
   \<and> compile_source sample_json (fixed_wrapper empty_output) ''contract A {}'' True
       ALL_OUTPUT_VALUES [] = Inr []
   \<and> compile_files sample_json (fixed_wrapper empty_output) [''a.sol''] False
       ALL_OUTPUT_VALUES [] =
     Inl (ContractsNotFound
       \<lparr>err_command = Some [''solc''], err_return_code = Some 0,
        stdin_data = None, stdout_data = Some empty_output,
        stderr_data = Some [], message = None\<rparr>)
   \<and> compile_files sample_json (fixed_wrapper empty_output) [''a.sol''] True
       ALL_OUTPUT_VALUES [] = Inr []"
  using
    compile_empty_contracts[where js = sample_json and payload = "[(''contracts'', JObj [])]"
      and r = "\<lparr>stdoutdata = empty_output, stderrdata = [], command = [''solc''],
                returncode = 0\<rparr>"
      and kwargs = "[]" and solc_wrapper = "fixed_wrapper empty_output"
      and source = "''contract A {}''" and source_files = "[''a.sol'']"
      and output_values = ALL_OUTPUT_VALUES and allow_empty = False]
    compile_empty_contracts[where js = sample_json and payload = "[(''contracts'', JObj [])]"
      and r = "\<lparr>stdoutdata = empty_output, stderrdata = [], command = [''solc''],
                returncode = 0\<rparr>"
      and kwargs = "[]" and solc_wrapper = "fixed_wrapper empty_output"
      and source = "''contract A {}''" and source_files = "[''a.sol'']"
      and output_values = ALL_OUTPUT_VALUES and allow_empty = True]
  by (simp add: sample_json_def fixed_wrapper_def)

section \<open>Properties of install.py\<close>

subsection \<open>Selecting a version for a pragma\<close>

text \<open>
  C1 (the code departs from the claim). The pragma \<^verbatim>\<open>>=0.5.0 <0.6.0\<close> is one comparator
  set of two constraints, and the only candidate, 0.4.25, does not satisfy the first of
  them; the claim has \<^verbatim>\<open>_select_pragma_version\<close> return \<^verbatim>\<open>None\<close>. The code returns
  0.4.25: with the spaces removed the regular expression matches the two comparators as
  one run, its group keeps the last one only, and the set is read as \<^verbatim>\<open><0.6.0\<close>.
\<close>

theorem select_pragma_version_keeps_last_comparator:
  "findall_comparators ''>=0.5.0<0.6.0'' = [''<0.6.0'']
   \<and> select_pragma_version ''>=0.5.0 <0.6.0'' [Version 0 4 25] = Inr (Some ''0.4.25'')
   \<and> \<not> spec_match [(OP_GTE, Version 0 5 0), (OP_LT, Version 0 6 0)] (Version 0 4 25)"
  by (simp add: select_pragma_version_def remove_char_def SimpleSpec_def simple_spec_def
      spec_prefix_def startswith_def match_comparator_def match_operator_def match_digits_def
      match_dot_def is_digit_def match_repeat.simps parse_version_def numeric_def
      leading_zero_def int_of_digits_def select_def spec_match_def version_lt_def
      version_le_def precedence_key_def str_version_def show_nat.simps)

subsection \<open>Downloading\<close>

lemma concat_chunks_error:
  "concat_chunks c chunks = Inl e \<Longrightarrow> e = TypeError ''cannot concat str to bytes''"
  by (induction c chunks rule: concat_chunks.induct) simp_all

text \<open>
  C9 (the code departs from the claim). When the response's status is not 200,
  \<^verbatim>\<open>_download_solc\<close> returns no content, as the claim says; but the exception it raises
  is never the \<^verbatim>\<open>DownloadError\<close> of the claim. Without progress reporting it is the
  \<^verbatim>\<open>AttributeError\<close> of reading \<^verbatim>\<open>response.status_url\<close> while the message is built.
\<close>

theorem download_solc_status_not_200:
  assumes "http w url = Inr response" and "status_code response \<noteq> 200"
  shows "(\<not> show_progress \<longrightarrow>
            fst (download_solc url show_progress w) =
              Inl (AttributeError ''Response object has no attribute status_url''))
       \<and> (\<forall>c. fst (download_solc url show_progress w) \<noteq> Inr c)
       \<and> (\<forall>m. fst (download_solc url show_progress w) \<noteq> Inl (DownloadError m))"
  using assms
  by (auto simp: download_solc_def bind_exn_def requests_get_def
      split: option.splits sum.splits dest: concat_chunks_error)

theorem download_solc_status_not_200_witness:
  "fst (download_solc (DOWNLOAD_BASE ''v0.6.0'' ''solc-static-linux'') False
          (sample_world ''linux'' {} None 404)) =
     Inl (AttributeError ''Response object has no attribute status_url'')"
  using download_solc_status_not_200[where w = "sample_world ''linux'' {} None 404"
      and url = "DOWNLOAD_BASE ''v0.6.0'' ''solc-static-linux''" and show_progress = False
      and response = "\<lparr>status_code = 404, content = ''solc'', content_length = Some 4,
                        iter_content = [Bytes ''solc'']\<rparr>"]
  by (simp add: sample_world_def)

subsection \<open>Evaluating the model on the examples\<close>

lemmas version_defs = check_version_def parse_version_def lstrip_def is_digit_def numeric_def
  leading_zero_def int_of_digits_def simple_spec_def spec_prefix_def startswith_def
  spec_match_def version_le_def version_lt_def precedence_key_def str_version_def show_nat.simps

lemmas install_defs = install_solc.simps get_platform_def lock_acquire_def lock_wait_def
  lock_release_def check_for_installed_version_def get_solc_folder_def joinpath_def
  install_attempt_def install_solc_linux_def install_solc_osx_def install_solc_windows_def
  bind_exn_def download_solc_def requests_get_def DOWNLOAD_BASE_def write_file_def
  chmod_plus_x_def get_executable_def check_subprocess_call_def check_call_def
  set_solc_version_def get_temp_folder_def under_def extractall_def rename_def
  install_deps_def build_solc_def sample_world_def Let_def

subsection \<open>Version tags\<close>


















lemma floor_spec: "simple_spec ''>=0.4.11'' = Inr [(OP_GTE, Version 0 4 11)]"
  by (simp add: version_defs)

lemma check_version_result:
  "check_version version = Inr v \<Longrightarrow>
     \<exists>ver. v = ''v'' @ str_version ver \<and> spec_match [(OP_GTE, Version 0 4 11)] ver"
  by (auto simp: check_version_def floor_spec split: sum.splits if_splits)


lemma check_version_nonempty: "check_version version = Inr v \<Longrightarrow> v \<noteq> []"
  using check_version_result by fastforce

subsection \<open>The active version\<close>

lemma get_solc_folder_fs:
  "get_solc_folder p w = (folder, w1) \<Longrightarrow>
     (w1 = w \<or> w1 = w\<lparr>fs := insert folder (fs w)\<rparr>) \<and> folder = fst (get_solc_folder p w)"
  by (auto simp: get_solc_folder_def Let_def split: option.splits if_splits)

lemma joinpath_neq: "joinpath p n \<noteq> p" "joinpath (joinpath p n) m \<noteq> p"
  by (simp_all add: joinpath_def)

lemma get_executable_result:
  assumes "v \<noteq> []"
  shows "fst (get_executable (Some v) p w) =
           (if executable_path v p w \<in> fs w then Inr (executable_path v p w)
            else Inl (SolcNotInstalled (''solc '' @ v @ '' has not been installed.'')))"
    and "solc_version (snd (get_executable (Some v) p w)) = solc_version w"
    and "requested (snd (get_executable (Some v) p w)) = requested w"
    and "fs w \<subseteq> fs (snd (get_executable (Some v) p w))"
proof -
  obtain folder w1 where g: "get_solc_folder p w = (folder, w1)" by (cases "get_solc_folder p w")
  from get_solc_folder_fs[OF g] have f: "folder = fst (get_solc_folder p w)"
    and w1: "w1 = w \<or> w1 = w\<lparr>fs := insert folder (fs w)\<rparr>" by blast+
  from w1 have sp: "sys_platform w1 = sys_platform w" by auto
  from w1 joinpath_neq[of folder]
  have mem: "\<And>n m. (joinpath folder n \<in> fs w1) = (joinpath folder n \<in> fs w)"
    "\<And>n m. (joinpath (joinpath folder n) m \<in> fs w1) = (joinpath (joinpath folder n) m \<in> fs w)"
    by auto
  show "fst (get_executable (Some v) p w) =
           (if executable_path v p w \<in> fs w then Inr (executable_path v p w)
            else Inl (SolcNotInstalled (''solc '' @ v @ '' has not been installed.'')))"
    using assms g sp mem
    by (simp add: get_executable_def executable_path_def installed_path_def Let_def)
  show "solc_version (snd (get_executable (Some v) p w)) = solc_version w"
    using assms g w1 by (auto simp: get_executable_def Let_def)
  show "requested (snd (get_executable (Some v) p w)) = requested w"
    using assms g w1 by (auto simp: get_executable_def Let_def)
  show "fs w \<subseteq> fs (snd (get_executable (Some v) p w))"
    using assms g w1 by (auto simp: get_executable_def Let_def)
qed

text \<open>
  C10. \<^verbatim>\<open>set_solc_version\<close> leaves the active version as it was whenever it raises;
  for a version that passes \<^verbatim>\<open>_check_version\<close> with tag \<open>v\<close>, it raises
  \<^verbatim>\<open>SolcNotInstalled\<close> when the executable of \<open>v\<close> does not exist, and otherwise
  succeeds and makes \<open>v\<close> the active version.
\<close>

theorem set_solc_version_validates:
  "(\<forall>e. fst (set_solc_version version silent path w) = Inl e
        \<longrightarrow> solc_version (snd (set_solc_version version silent path w)) = solc_version w)
   \<and> (check_version version = Inr v \<and> executable_path v path w \<notin> fs w
        \<longrightarrow> (\<exists>msg. fst (set_solc_version version silent path w) = Inl (SolcNotInstalled msg)))
   \<and> (check_version version = Inr v \<and> executable_path v path w \<in> fs w
        \<longrightarrow> fst (set_solc_version version silent path w) = Inr ()
            \<and> solc_version (snd (set_solc_version version silent path w)) = Some v)"
proof (cases "check_version version")
  case (Inl e)
  then show ?thesis by (simp add: set_solc_version_def)
next
  case (Inr v')
  from check_version_nonempty[OF this] have ne: "v' \<noteq> []" .
  obtain r w1 where g: "get_executable (Some v') path w = (r, w1)"
    by (cases "get_executable (Some v') path w")
  from get_executable_result(1,2)[OF ne, of path w] g
  have r: "r = (if executable_path v' path w \<in> fs w then Inr (executable_path v' path w)
            else Inl (SolcNotInstalled (''solc '' @ v' @ '' has not been installed.'')))"
    and s: "solc_version w1 = solc_version w" by simp_all
  show ?thesis using Inr g r s
    by (auto simp: set_solc_version_def)
qed

theorem set_solc_version_validates_witness:
  "fst (set_solc_version ''0.6.0'' False None (sample_world ''linux'' {} (Some ''v0.5.0'') 200)) =
     Inl (SolcNotInstalled ''solc v0.6.0 has not been installed.'')
   \<and> solc_version (snd (set_solc_version ''0.6.0'' False None
          (sample_world ''linux'' {} (Some ''v0.5.0'') 200))) = Some ''v0.5.0''
   \<and> fst (set_solc_version ''0.6.0'' False None
          (sample_world ''linux'' {''/home/user/.solcx/solc-v0.6.0''} (Some ''v0.5.0'') 200)) = Inr ()
   \<and> solc_version (snd (set_solc_version ''0.6.0'' False None
          (sample_world ''linux'' {''/home/user/.solcx/solc-v0.6.0''} (Some ''v0.5.0'') 200))) =
        Some ''v0.6.0''"
  using
    set_solc_version_validates[where version = "''0.6.0''" and v = "''v0.6.0''" and silent = False
      and path = None and w = "sample_world ''linux'' {} (Some ''v0.5.0'') 200"]
    set_solc_version_validates[where version = "''0.6.0''" and v = "''v0.6.0''" and silent = False
      and path = None
      and w = "sample_world ''linux'' {''/home/user/.solcx/solc-v0.6.0''} (Some ''v0.5.0'') 200"]
  by (simp add: version_defs install_defs executable_path_def installed_path_def)

subsection \<open>The lock is released\<close>

lemma keeps_locksI:
  "(\<And>w r w'. m w = (r, w') \<Longrightarrow> held w' = held w \<and> lock_log w' = lock_log w) \<Longrightarrow> keeps_locks m"
  by (simp add: keeps_locks_def)

lemma keeps_locksD:
  "keeps_locks m \<Longrightarrow> m w = (r, w') \<Longrightarrow> held w' = held w \<and> lock_log w' = lock_log w"
  by (simp add: keeps_locks_def)

lemma keeps_locks_bind:
  assumes "keeps_locks m" and "\<And>x. keeps_locks (f x)"
  shows "keeps_locks (bind_exn m f)"
proof (rule keeps_locksI)
  fix w r w'
  assume b: "bind_exn m f w = (r, w')"
  obtain r1 w1 where m: "m w = (r1, w1)" by (cases "m w")
  from keeps_locksD[OF assms(1) m] have w1: "held w1 = held w \<and> lock_log w1 = lock_log w" .
  show "held w' = held w \<and> lock_log w' = lock_log w"
  proof (cases r1)
    case (Inl e)
    with m b w1 show ?thesis by (simp add: bind_exn_def)
  next
    case (Inr x)
    with m b have "f x w1 = (r, w')" by (simp add: bind_exn_def)
    from keeps_locksD[OF assms(2) this] w1 show ?thesis by simp
  qed
qed

lemma keeps_locks_then:
  assumes "keeps_locks m" and "\<And>x. keeps_locks (f x)"
  shows "keeps_locks (\<lambda>w. case m w of (x, w') \<Rightarrow> f x w')"
proof (rule keeps_locksI)
  fix w r w'
  assume a: "(case m w of (x, w') \<Rightarrow> f x w') = (r, w')"
  obtain x w1 where m: "m w = (x, w1)" by (cases "m w")
  from a m have "f x w1 = (r, w')" by simp
  from keeps_locksD[OF assms(2) this] keeps_locksD[OF assms(1) m]
  show "held w' = held w \<and> lock_log w' = lock_log w" by simp
qed

lemma keeps_locks_return: "keeps_locks (\<lambda>w. (x, w))"
  by (simp add: keeps_locks_def)

lemma keeps_locks_write_file: "keeps_locks (write_file p)"
  by (auto simp: keeps_locks_def write_file_def split: if_splits)

lemma keeps_locks_rename: "keeps_locks (rename a b)"
  by (auto simp: keeps_locks_def rename_def split: if_splits)

lemma keeps_locks_extractall: "keeps_locks (extractall a t)"
  by (auto simp: keeps_locks_def extractall_def split: option.splits)

lemma keeps_locks_check_call: "keeps_locks (check_call cmd)"
  by (auto simp: keeps_locks_def check_call_def Let_def split: sum.splits if_splits)

lemma keeps_locks_check_subprocess_call: "keeps_locks (check_subprocess_call cmd)"
  unfolding check_subprocess_call_def
  by (intro keeps_locks_bind keeps_locks_check_call keeps_locks_return)

lemma keeps_locks_chmod: "keeps_locks (chmod_plus_x p)"
  by (auto simp: keeps_locks_def chmod_plus_x_def split: if_splits)

lemma keeps_locks_get_solc_folder: "keeps_locks (get_solc_folder p)"
  by (auto simp: keeps_locks_def get_solc_folder_def Let_def split: option.splits if_splits)

lemma keeps_locks_get_temp_folder: "keeps_locks get_temp_folder"
  by (auto simp: keeps_locks_def get_temp_folder_def Let_def split: if_splits)

lemma keeps_locks_check_for_installed_version: "keeps_locks (check_for_installed_version v p)"
  by (auto simp: keeps_locks_def check_for_installed_version_def Let_def
      split: prod.splits if_splits dest: keeps_locksD[OF keeps_locks_get_solc_folder])

lemma keeps_locks_download_solc: "keeps_locks (download_solc url sp)"
  unfolding download_solc_def
  by (rule keeps_locks_bind) (auto simp: keeps_locks_def requests_get_def split: sum.splits if_splits)

lemma keeps_locks_get_executable: "keeps_locks (get_executable v p)"
  by (auto simp: keeps_locks_def get_executable_def Let_def
      split: prod.splits option.splits if_splits dest: keeps_locksD[OF keeps_locks_get_solc_folder])

lemma keeps_locks_set_solc_version: "keeps_locks (set_solc_version v s p)"
  by (auto simp: keeps_locks_def set_solc_version_def
      split: sum.splits prod.splits dest: keeps_locksD[OF keeps_locks_get_executable])

lemma keeps_locks_install_solc_linux: "keeps_locks (install_solc_linux v sp p)"
proof (rule keeps_locksI)
  fix w r w'
  assume i: "install_solc_linux v sp p w = (r, w')"
  obtain r1 w1 where c: "check_for_installed_version v p w = (r1, w1)"
    by (cases "check_for_installed_version v p w")
  from keeps_locksD[OF keeps_locks_check_for_installed_version c]
  have w1: "held w1 = held w \<and> lock_log w1 = lock_log w" .
  have k: "\<And>b. keeps_locks (bind_exn (download_solc (DOWNLOAD_BASE v ''solc-static-linux'') sp)
        (\<lambda>content'. bind_exn (write_file b) (\<lambda>_. chmod_plus_x b)))"
    by (intro keeps_locks_bind keeps_locks_download_solc keeps_locks_write_file keeps_locks_chmod)
  show "held w' = held w \<and> lock_log w' = lock_log w"
  proof (cases r1)
    case None
    with i c w1 show ?thesis by (simp add: install_solc_linux_def)
  next
    case (Some b)
    with i c have "bind_exn (download_solc (DOWNLOAD_BASE v ''solc-static-linux'') sp)
        (\<lambda>content'. bind_exn (write_file b) (\<lambda>_. chmod_plus_x b)) w1 = (r, w')"
      by (simp add: install_solc_linux_def)
    from keeps_locksD[OF k this] w1 show ?thesis by simp
  qed
qed

lemma keeps_locks_install_solc_windows: "keeps_locks (install_solc_windows v sp p)"
proof (rule keeps_locksI)
  fix w r w'
  assume i: "install_solc_windows v sp p w = (r, w')"
  obtain r1 w1 where c: "check_for_installed_version v None w = (r1, w1)"
    by (cases "check_for_installed_version v None w")
  from keeps_locksD[OF keeps_locks_check_for_installed_version c]
  have w1: "held w1 = held w \<and> lock_log w1 = lock_log w" .
  obtain t w2 where g: "get_temp_folder w1 = (t, w2)" by (cases "get_temp_folder w1")
  from keeps_locksD[OF keeps_locks_get_temp_folder g] w1
  have w2: "held w2 = held w \<and> lock_log w2 = lock_log w" by simp
  have r: "\<And>t. keeps_locks (\<lambda>w3. case get_solc_folder p w3 of (folder, w4) \<Rightarrow>
                 rename t (joinpath folder (''solc-'' @ v)) w4)"
    by (intro keeps_locks_then keeps_locks_get_solc_folder keeps_locks_rename)
  have k: "keeps_locks (bind_exn (download_solc (DOWNLOAD_BASE v ''solidity-windows.zip'') sp)
        (\<lambda>content'. bind_exn (extractall content' t) (\<lambda>_ w3.
               case get_solc_folder p w3 of (folder, w4) \<Rightarrow>
                 rename t (joinpath folder (''solc-'' @ v)) w4)))"
    by (intro keeps_locks_bind keeps_locks_download_solc keeps_locks_extractall r)
  show "held w' = held w \<and> lock_log w' = lock_log w"
  proof (cases r1)
    case None
    with i c w1 show ?thesis by (simp add: install_solc_windows_def)
  next
    case (Some b)
    with i c g have "bind_exn (download_solc (DOWNLOAD_BASE v ''solidity-windows.zip'') sp)
        (\<lambda>content'. bind_exn (extractall content' t) (\<lambda>_ w3.
               case get_solc_folder p w3 of (folder, w4) \<Rightarrow>
                 rename t (joinpath folder (''solc-'' @ v)) w4)) w2 = (r, w')"
      by (simp add: install_solc_windows_def)
    from keeps_locksD[OF k this] w2 show ?thesis by simp
  qed
qed

lemma keeps_locks_install_deps: "keeps_locks (install_deps t)"
  by (auto simp: keeps_locks_def install_deps_def split: prod.splits sum.splits exn.splits
      dest: keeps_locksD[OF keeps_locks_check_subprocess_call])

lemma keeps_locks_build_solc: "keeps_locks (build_solc t b)"
proof (rule keeps_locksI)
  fix w r w'
  assume i: "build_solc t b w = (r, w')"
  let ?w2 = "w\<lparr>fs := insert (joinpath t ''build'') (fs w), getcwd := joinpath t ''build''\<rparr>"
  let ?body = "bind_exn (check_subprocess_call [''cmake'', ''..'']) (\<lambda>_.
              bind_exn (check_subprocess_call [''make'']) (\<lambda>_.
              rename (joinpath t ''build/solc/solc'') b))"
  have k: "keeps_locks ?body"
    by (intro keeps_locks_bind keeps_locks_check_subprocess_call keeps_locks_rename)
  obtain r3 w3 where b: "?body ?w2 = (r3, w3)" by (cases "?body ?w2")
  from keeps_locksD[OF k b] have w3: "held w3 = held w \<and> lock_log w3 = lock_log w" by simp
  from i b have "w' = w3\<lparr>getcwd := getcwd w\<rparr>"
    by (auto simp: build_solc_def Let_def split: sum.splits exn.splits)
  with w3 show "held w' = held w \<and> lock_log w' = lock_log w" by simp
qed

lemma keeps_locks_install_solc_osx: "keeps_locks (install_solc_osx v a sp p)"
proof (rule keeps_locksI)
  fix w r w'
  assume i: "install_solc_osx v a sp p w = (r, w')"
  show "held w' = held w \<and> lock_log w' = lock_log w"
  proof (cases "startswith v ''v0.4'' \<and> \<not> a")
    case True
    with i show ?thesis by (simp add: install_solc_osx_def)
  next
    case False
    obtain t w1 where g: "get_temp_folder w = (t, w1)" by (cases "get_temp_folder w")
    from keeps_locksD[OF keeps_locks_get_temp_folder g]
    have w1: "held w1 = held w \<and> lock_log w1 = lock_log w" .
    obtain r2 w2 where c: "check_for_installed_version v None w1 = (r2, w2)"
      by (cases "check_for_installed_version v None w1")
    from keeps_locksD[OF keeps_locks_check_for_installed_version c] w1
    have w2: "held w2 = held w \<and> lock_log w2 = lock_log w" by simp
    have k: "\<And>b. keeps_locks (bind_exn (download_solc (DOWNLOAD_BASE v (''solidity_'' @ drop 1 v @ ''.tar.gz'')) sp) (\<lambda>content'.
                bind_exn (extractall content' t) (\<lambda>_.
                (let temp_path' = joinpath t (''solidity_'' @ drop 1 v) in
                 bind_exn (install_deps temp_path') (\<lambda>_.
                 bind_exn (build_solc temp_path' b) (\<lambda>_.
                 chmod_plus_x b))))))"
      unfolding Let_def
      by (intro keeps_locks_bind keeps_locks_download_solc keeps_locks_extractall
          keeps_locks_install_deps keeps_locks_build_solc keeps_locks_chmod)
    show ?thesis
    proof (cases r2)
      case None
      with i False g c w2 show ?thesis by (simp add: install_solc_osx_def)
    next
      case (Some b)
      with i False g c have "bind_exn (download_solc (DOWNLOAD_BASE v (''solidity_'' @ drop 1 v @ ''.tar.gz'')) sp) (\<lambda>content'.
                bind_exn (extractall content' t) (\<lambda>_.
                (let temp_path' = joinpath t (''solidity_'' @ drop 1 v) in
                 bind_exn (install_deps temp_path') (\<lambda>_.
                 bind_exn (build_solc temp_path' b) (\<lambda>_.
                 chmod_plus_x b))))) w2 = (r, w')"
        by (simp add: install_solc_osx_def)
      from keeps_locksD[OF k this] w2 show ?thesis by simp
    qed
  qed
qed

lemma keeps_locks_install_attempt: "keeps_locks (install_attempt pl v a sp p)"
  unfolding install_attempt_def
proof (intro keeps_locks_bind keeps_locks_get_executable keeps_locks_check_subprocess_call)
  show "keeps_locks (if pl = ''linux'' then install_solc_linux v sp p
        else if pl = ''darwin'' then install_solc_osx v a sp p
        else if pl = ''win32'' then install_solc_windows v sp p
        else (\<lambda>w. (Inr (), w)))"
    by (simp add: keeps_locks_install_solc_linux keeps_locks_install_solc_osx
        keeps_locks_install_solc_windows keeps_locks_return)
next
  fix x xa xb
  show "keeps_locks (\<lambda>w. if solc_version w = None \<or> solc_version w = Some []
       then set_solc_version v False None w else (Inr (), w))"
    by (auto simp: keeps_locks_def split: if_splits dest: keeps_locksD[OF keeps_locks_set_solc_version])
qed

text \<open>
  C4. Whatever \<^verbatim>\<open>install_solc\<close> returns or raises, the process holds no lock afterwards
  that it did not hold before; and if the call acquired a lock, the last lock operation
  of the call is the release of that lock, which is then not held.
\<close>

theorem install_solc_releases_lock:
  "held (snd (install_solc version allow_osx show_progress solcx_binary_path others w)) \<subseteq> held w
   \<and> (\<exists>ops. lock_log (snd (install_solc version allow_osx show_progress solcx_binary_path others w))
               = lock_log w @ ops
          \<and> (\<forall>name. Acquired name \<in> set ops \<longrightarrow>
                last ops = Released name
                \<and> name \<notin> held (snd (install_solc version allow_osx show_progress
                                        solcx_binary_path others w))))"
proof (induction version allow_osx show_progress solcx_binary_path others w
    rule: install_solc.induct)
  case (1 version allow_osx show_progress solcx_binary_path others w)
  let ?R = "install_solc version allow_osx show_progress solcx_binary_path others w"
  show ?case
  proof (cases "get_platform w")
    case (Inl e)
    then have "?R = (Inl e, w)" by (simp add: install_solc.simps)
    then show ?thesis by simp
  next
    case (Inr platform)
    note pl = this
    show ?thesis
    proof (cases "check_version version")
      case (Inl e)
      with pl have "?R = (Inl e, w)" by (simp add: install_solc.simps)
      then show ?thesis by simp
    next
      case (Inr v)
      note cv = this
      obtain acquired w1 where la: "lock_acquire v others w = (acquired, w1)"
        by (cases "lock_acquire v others w")
      show ?thesis
      proof (cases acquired)
        case True
        with la have w1: "held w1 = insert v (held w)" "lock_log w1 = lock_log w @ [Acquired v]"
          by (auto simp: lock_acquire_def split: list.splits lock_event.splits)
        obtain r w2 where ia: "install_attempt platform v allow_osx show_progress
            solcx_binary_path w1 = (r, w2)"
          by (cases "install_attempt platform v allow_osx show_progress solcx_binary_path w1")
        from keeps_locksD[OF keeps_locks_install_attempt ia] w1
        have w2: "held w2 = insert v (held w)" "lock_log w2 = lock_log w @ [Acquired v]"
          by simp_all
        from pl cv la True ia have R: "?R = (r, lock_release v w2)"
          by (simp add: install_solc.simps)
        have h: "held (snd ?R) = held w - {v}" unfolding R using w2 by (auto simp: lock_release_def)
        have l: "lock_log (snd ?R) = lock_log w @ [Acquired v, Released v]"
          unfolding R using w2 by (simp add: lock_release_def)
        from h l show ?thesis by auto
      next
        case False
        let ?w2 = "lock_wait v others w1"
        from la False have w1: "held w1 = held w" "lock_log w1 = lock_log w @ [Refused v]"
          by (auto simp: lock_acquire_def split: list.splits lock_event.splits)
        then have w2: "held ?w2 = held w" "lock_log ?w2 = lock_log w @ [Refused v, Waited v]"
          by (auto simp: lock_wait_def split: list.splits lock_event.splits)
        obtain r3 w3 where ci: "check_for_installed_version v None ?w2 = (r3, w3)"
          by (cases "check_for_installed_version v None ?w2")
        from keeps_locksD[OF keeps_locks_check_for_installed_version ci] w2
        have w3: "held w3 = held w" "lock_log w3 = lock_log w @ [Refused v, Waited v]"
          by simp_all
        show ?thesis
        proof (cases r3)
          case None
          with pl cv la False ci have "?R = (Inr (), w3)"
            by (simp add: install_solc.simps)
          with w3 show ?thesis by auto
        next
          case (Some path)
          let ?R' = "install_solc v allow_osx False None (tl others) w3"
          from pl cv la False ci Some have R: "?R = ?R'"
            by (simp add: install_solc.simps)
          from "1.IH"[OF pl cv la[symmetric] False refl ci[symmetric] Some]
          obtain ops where h: "held (snd ?R') \<subseteq> held w3"
            and l: "lock_log (snd ?R') = lock_log w3 @ ops"
            and a: "\<forall>name. Acquired name \<in> set ops \<longrightarrow>
                      last ops = Released name \<and> name \<notin> held (snd ?R')"
            by blast
          have l': "lock_log (snd ?R') = lock_log w @ ([Refused v, Waited v] @ ops)"
            using l w3 by simp
          have a': "\<forall>name. Acquired name \<in> set ([Refused v, Waited v] @ ops) \<longrightarrow>
                      last ([Refused v, Waited v] @ ops) = Released name \<and> name \<notin> held (snd ?R')"
          proof (intro allI impI)
            fix name assume "Acquired name \<in> set ([Refused v, Waited v] @ ops)"
            then have m: "Acquired name \<in> set ops" by simp
            then have "ops \<noteq> []" by auto
            then have "last ([Refused v, Waited v] @ ops) = last ops" by simp
            with a m show "last ([Refused v, Waited v] @ ops) = Released name \<and> name \<notin> held (snd ?R')"
              by simp
          qed
          from h w3 l' a' show ?thesis unfolding R by blast
        qed
      qed
    qed
  qed
qed

theorem install_solc_releases_lock_witness:
  "fst (install_solc ''v0.6.0'' False False None [] (sample_world ''linux'' {} None 404)) =
     Inl (AttributeError ''Response object has no attribute status_url'')
   \<and> held (snd (install_solc ''v0.6.0'' False False None []
          (sample_world ''linux'' {} None 404))) = {}
   \<and> lock_log (snd (install_solc ''v0.6.0'' False False None []
          (sample_world ''linux'' {} None 404))) = [Acquired ''v0.6.0'', Released ''v0.6.0'']"
  using install_solc_releases_lock[where version = "''v0.6.0''" and allow_osx = False
      and show_progress = False and solcx_binary_path = None and others = "[]"
      and w = "sample_world ''linux'' {} None 404"]
  by (simp add: version_defs install_defs)

subsection \<open>The lock is busy\<close>

lemma same_env_refl: "same_env w w"
  by (simp add: same_env_def)









subsection \<open>The version is installed already\<close>
















end
